theory Spec2Isabelle
  imports Main
begin

section \<open>cvtsudoers: the invocation set-up pipeline of \<^verbatim>\<open>plugins/sudoers/cvtsudoers.c\<close>\<close>

text \<open>
  The program is one \<^verbatim>\<open>main\<close> that reads its options, mocks up the global
  \<^verbatim>\<open>sudo_user\<close> structure (identity and host names), initialises the sudoers defaults
  and hands the input and output paths to \<^verbatim>\<open>export_sudoers\<close>. Everything it asks of the
  operating system or of other compilation units is a field of the record \<open>env\<close>; what it
  writes and whom it calls is appended to a trace; every \<^verbatim>\<open>exit\<close>, \<^verbatim>\<open>sudo_fatalx\<close> and
  \<^verbatim>\<open>goto done\<close> is the left injection of a sum, carrying the exit status.
\<close>

subsection \<open>Data\<close>

text \<open>\<^verbatim>\<open>struct passwd\<close> of the C library.\<close>

record passwd =
  pw_name :: string
  pw_uid :: nat
  pw_gid :: nat
  pw_gecos :: string
  pw_dir :: string
  pw_shell :: string

text \<open>
  The fields of the global \<^verbatim>\<open>struct sudo_user sudo_user\<close> that this file assigns:
  \<^verbatim>\<open>user_host\<close>, \<^verbatim>\<open>user_shost\<close>, \<^verbatim>\<open>user_runhost\<close>, \<^verbatim>\<open>user_srunhost\<close>, \<^verbatim>\<open>user_cmnd\<close> and
  \<^verbatim>\<open>user_base\<close> are the macros of \<^verbatim>\<open>sudoers.h\<close> for \<^verbatim>\<open>sudo_user.host\<close> and so on.
  A pointer is an option, \<open>None\<close> for \<^verbatim>\<open>NULL\<close>.
\<close>

record sudo_user =
  pw :: "passwd option"
  host :: "string option"
  shost :: "string option"
  runhost :: "string option"
  srunhost :: "string option"
  cmnd :: "string option"
  cmnd_base :: "string option"

text \<open>The global has static storage: every pointer starts as \<^verbatim>\<open>NULL\<close>.\<close>

definition sudo_user_init :: sudo_user where
  "sudo_user_init =
     \<lparr>pw = None, host = None, shost = None, runhost = None, srunhost = None,
      cmnd = None, cmnd_base = None\<rparr>"

datatype stream = Stdout | Stderr

text \<open>
  What a run does that can be seen from outside, in order: text written with
  \<^verbatim>\<open>printf\<close>, \<^verbatim>\<open>fprintf\<close> or \<^verbatim>\<open>puts\<close>, a message handed to \<^verbatim>\<open>sudo_warnx\<close> or
  \<^verbatim>\<open>sudo_fatalx\<close>, and the call of \<^verbatim>\<open>export_sudoers\<close> with its two paths and the value
  it returned.
\<close>

datatype event =
    Print stream string
  | Warnx string
  | Fatalx string
  | Export_sudoers string string bool

text \<open>The process state that \<^verbatim>\<open>main\<close> changes: the global and the trace.\<close>

record proc =
  su :: sudo_user
  out :: "event list"

text \<open>
  The surroundings of one run. The C library, \<^verbatim>\<open>libsudo_util\<close> and the other units of
  the sudoers plugin are not part of this file, so what they return is taken as given:
  \<^item> \<open>progname\<close>: \<^verbatim>\<open>getprogname()\<close> after \<^verbatim>\<open>initprogname\<close>;
  \<^item> \<open>package_version\<close>, \<open>grammar_version\<close>: the macros \<^verbatim>\<open>PACKAGE_VERSION\<close> and
    \<^verbatim>\<open>SUDOERS_GRAMMAR_VERSION\<close>;
  \<^item> \<open>initlocale_ok\<close>, \<open>conf_read\<close>, \<open>debug_register_ok\<close>: the results of
    \<^verbatim>\<open>sudoers_initlocale\<close>, \<^verbatim>\<open>sudo_conf_read\<close> and \<^verbatim>\<open>sudoers_debug_register\<close>;
  \<^item> \<open>geteuid\<close>, \<open>getuid\<close>, \<open>getenv_SUDO_USER\<close> (the value of \<^verbatim>\<open>getenv("SUDO_USER")\<close>);
  \<^item> \<open>sudo_getpwnam\<close>, \<open>sudo_getpwuid\<close>: the passwd lookups;
  \<^item> \<open>sudo_gethostname\<close>: the host name, \<open>None\<close> when the lookup fails;
  \<^item> \<open>malloc_ok n\<close>: whether an allocation of \<open>n\<close> bytes succeeds;
  \<^item> \<open>init_defaults_ok\<close>: the result of \<^verbatim>\<open>init_defaults\<close>;
  \<^item> \<open>export_sudoers\<close>: the exporter, which reads the global \<^verbatim>\<open>sudo_user\<close> and
    takes the input and the output path.
\<close>

record env =
  progname :: string
  package_version :: string
  grammar_version :: nat
  initlocale_ok :: bool
  conf_read :: int
  debug_register_ok :: bool
  geteuid :: nat
  getuid :: nat
  getenv_SUDO_USER :: "string option"
  sudo_getpwnam :: "string \<Rightarrow> passwd option"
  sudo_getpwuid :: "nat \<Rightarrow> passwd option"
  sudo_gethostname :: "string option"
  malloc_ok :: "nat \<Rightarrow> bool"
  init_defaults_ok :: bool
  export_sudoers :: "sudo_user \<Rightarrow> string \<Rightarrow> string \<Rightarrow> bool"

text \<open>The local variables of \<^verbatim>\<open>main\<close> that the option loop assigns.\<close>

record locals =
  input_file :: string
  output_file :: string
  output_format :: string

definition EXIT_SUCCESS :: int where
  "EXIT_SUCCESS = 0"

definition EXIT_FAILURE :: int where
  "EXIT_FAILURE = 1"

subsection \<open>The C library functions the file calls\<close>

text \<open>
  \<^verbatim>\<open>strcasecmp\<close>, \<^verbatim>\<open>strchr\<close> and \<^verbatim>\<open>strdup\<close> belong to the C library. They are written
  out here as POSIX describes them, \<^verbatim>\<open>tolower\<close> as in the C locale (only the 26 ASCII
  capitals change).
\<close>

definition tolower :: "char \<Rightarrow> char" where
  "tolower c =
     (case map_of (zip ''ABCDEFGHIJKLMNOPQRSTUVWXYZ'' ''abcdefghijklmnopqrstuvwxyz'') c of
        None \<Rightarrow> c
      | Some d \<Rightarrow> d)"

fun strcasecmp :: "string \<Rightarrow> string \<Rightarrow> int" where
  "strcasecmp [] [] = 0"
| "strcasecmp [] (b # bs) = - int (of_char (tolower b))"
| "strcasecmp (a # as) [] = int (of_char (tolower a))"
| "strcasecmp (a # as) (b # bs) =
     (if tolower a = tolower b then strcasecmp as bs
      else int (of_char (tolower a)) - int (of_char (tolower b)))"

text \<open>\<^verbatim>\<open>strchr(s, c)\<close>: the position of the first \<open>c\<close> in \<open>s\<close>, \<open>None\<close> for \<^verbatim>\<open>NULL\<close>.\<close>

fun strchr :: "string \<Rightarrow> char \<Rightarrow> nat option" where
  "strchr [] c = None"
| "strchr (x # xs) c =
     (if x = c then Some 0 else (case strchr xs c of None \<Rightarrow> None | Some i \<Rightarrow> Some (Suc i)))"

text \<open>\<^verbatim>\<open>strdup(s)\<close>: a copy of \<open>s\<close>, or \<^verbatim>\<open>NULL\<close> when its \<open>length s + 1\<close> bytes cannot be had.\<close>

definition strdup :: "env \<Rightarrow> string \<Rightarrow> string option" where
  "strdup e s = (if malloc_ok e (length s + 1) then Some s else None)"

text \<open>\<^verbatim>\<open>%d\<close> of a number that is not negative.\<close>

fun show_nat :: "nat \<Rightarrow> string" where
  "show_nat n =
     (if n < 10 then [char_of (48 + n)] else show_nat (n div 10) @ [char_of (48 + n mod 10)])"

subsection \<open>Output and termination\<close>

definition emit :: "event \<Rightarrow> proc \<Rightarrow> proc" where
  "emit ev p = p\<lparr>out := out p @ [ev]\<rparr>"

text \<open>\<^verbatim>\<open>sudo_fatalx\<close> writes its message and exits with \<^verbatim>\<open>EXIT_FAILURE\<close>.\<close>

definition sudo_fatalx :: "string \<Rightarrow> proc \<Rightarrow> (int + 'a) \<times> proc" where
  "sudo_fatalx msg p = (Inl EXIT_FAILURE, emit (Fatalx msg) p)"

definition usage_text :: "string \<Rightarrow> string" where
  "usage_text name =
     ''usage: '' @ name @ '' [-hV] [-f format] [-o output_file] [sudoers_file]'' @ [CHR 0x0A]"

text \<open>\<^verbatim>\<open>usage(fatal)\<close>: lines 253 to 261.\<close>

definition usage :: "env \<Rightarrow> int \<Rightarrow> proc \<Rightarrow> (int + unit) \<times> proc" where
  "usage e fatal p =
     (let p' = emit (Print (if fatal \<noteq> 0 then Stderr else Stdout) (usage_text (progname e))) p
      in if fatal \<noteq> 0 then (Inl 1, p') else (Inr (), p'))"

definition help_title :: "string \<Rightarrow> string" where
  "help_title name = name @ '' - convert between sudoers file formats'' @ [CHR 0x0A, CHR 0x0A]"

definition help_options :: string where
  "help_options =
     [CHR 0x0A] @ ''Options:'' @ [CHR 0x0A] @
     ''  -f, --format=JSON        specify output format'' @ [CHR 0x0A] @
     ''  -h, --help               display help message and exit'' @ [CHR 0x0A] @
     ''  -o, --output=output_file write sudoers in JSON format to output_file'' @ [CHR 0x0A] @
     ''  -V, --version            display version information and exit'' @ [CHR 0x0A]"

text \<open>
  \<^verbatim>\<open>help()\<close>: lines 263 to 274, here \<open>help_cvt\<close> since \<^verbatim>\<open>help\<close> is a command of
  Isabelle. It does not return: after the title, the usage line on the standard output
  and the options (\<^verbatim>\<open>puts\<close> adds the last newline) it calls \<^verbatim>\<open>exit(0)\<close>. The message
  catalogue behind \<^verbatim>\<open>_()\<close> and \<^verbatim>\<open>U_()\<close> is taken as the identity, as in the C locale.
\<close>

definition help_cvt :: "env \<Rightarrow> proc \<Rightarrow> (int + 'a) \<times> proc" where
  "help_cvt e p =
     (case usage e 0 (emit (Print Stdout (help_title (progname e))) p) of
        (Inl n, p') \<Rightarrow> (Inl n, p')
      | (Inr u, p') \<Rightarrow> (Inl 0, emit (Print Stdout help_options) p'))"

definition version_line :: "env \<Rightarrow> string" where
  "version_line e = progname e @ '' version '' @ package_version e @ [CHR 0x0A]"

definition grammar_line :: "env \<Rightarrow> string" where
  "grammar_line e =
     progname e @ '' grammar version '' @ show_nat (grammar_version e) @ [CHR 0x0A]"

subsection \<open>Option handling: lines 111 to 149 of \<^verbatim>\<open>main\<close>\<close>

text \<open>
  \<^verbatim>\<open>getopt_long\<close> is the C library's. The values it returns one after the other on the
  argument vector, each with the \<^verbatim>\<open>optarg\<close> it sets, are the list the loop runs over
  (the \<open>-1\<close> that ends the scan is the end of the list); the arguments left at
  \<^verbatim>\<open>argv + optind\<close> are the operands. With the option string \<^verbatim>\<open>"f:ho:V"\<close> and the table
  \<^verbatim>\<open>long_opts\<close> a value is \<open>f\<close>, \<open>h\<close>, \<open>o\<close> or \<open>V\<close>, or \<open>?\<close> for an option that is unknown
  or lacks its argument. What \<^verbatim>\<open>getopt_long\<close> itself writes about such an option is
  not on the trace.

  The loop follows the \<^verbatim>\<open>switch\<close>: \<open>f\<close> checks the format, warns and calls \<^verbatim>\<open>usage(1)\<close>
  on any other than \<^verbatim>\<open>json\<close>; \<open>h\<close> calls \<^verbatim>\<open>help\<close>; \<open>o\<close> stores the output file; \<open>V\<close>
  prints the two version lines and jumps to \<^verbatim>\<open>done\<close> with \<^verbatim>\<open>EXIT_SUCCESS\<close>; anything
  else calls \<^verbatim>\<open>usage(1)\<close>.
\<close>

fun getopt_loop :: "env \<Rightarrow> (char \<times> string) list \<Rightarrow> locals \<Rightarrow> proc \<Rightarrow> (int + locals) \<times> proc" where
  "getopt_loop e [] l p = (Inr l, p)"
| "getopt_loop e ((ch, optarg) # rest) l p =
     (if ch = CHR ''f'' then
        (if strcasecmp optarg ''json'' \<noteq> 0 then
           (case usage e 1 (emit (Warnx (''unsupported output format '' @ optarg)) p) of
              (Inl n, p') \<Rightarrow> (Inl n, p')
            | (Inr u, p') \<Rightarrow> getopt_loop e rest (l\<lparr>output_format := optarg\<rparr>) p')
         else getopt_loop e rest (l\<lparr>output_format := optarg\<rparr>) p)
      else if ch = CHR ''h'' then help_cvt e p
      else if ch = CHR ''o'' then getopt_loop e rest (l\<lparr>output_file := optarg\<rparr>) p
      else if ch = CHR ''V'' then
        (Inl EXIT_SUCCESS,
         emit (Print Stdout (grammar_line e)) (emit (Print Stdout (version_line e)) p))
      else
        (case usage e 1 p of
           (Inl n, p') \<Rightarrow> (Inl n, p')
         | (Inr u, p') \<Rightarrow> getopt_loop e rest l p'))"

text \<open>
  Lines 143 to 149, the input file: \<^verbatim>\<open>argc\<close> is now the number of operands and
  \<^verbatim>\<open>argv[0]\<close> the first of them.
\<close>

definition input_arg :: "env \<Rightarrow> string list \<Rightarrow> locals \<Rightarrow> proc \<Rightarrow> (int + locals) \<times> proc" where
  "input_arg e operands l p =
     (case operands of
        [] \<Rightarrow> (Inr l, p)
      | a # as \<Rightarrow>
          (case (if length operands > 1 then usage e 1 p else (Inr (), p)) of
             (Inl n, p') \<Rightarrow> (Inl n, p')
           | (Inr u, p') \<Rightarrow> (Inr (l\<lparr>input_file := a\<rparr>), p')))"

definition arg_handling ::
  "env \<Rightarrow> (char \<times> string) list \<Rightarrow> string list \<Rightarrow> locals \<Rightarrow> proc \<Rightarrow> (int + locals) \<times> proc" where
  "arg_handling e opts operands l p =
     (case getopt_loop e opts l p of
        (Inl n, p') \<Rightarrow> (Inl n, p')
      | (Inr l', p') \<Rightarrow> input_arg e operands l' p')"

subsection \<open>The mocked-up \<^verbatim>\<open>sudo_user\<close>: lines 151 to 162 of \<^verbatim>\<open>main\<close>\<close>

definition mock_sudo_user :: "env \<Rightarrow> proc \<Rightarrow> (int + unit) \<times> proc" where
  "mock_sudo_user e p =
     (let p1 = p\<lparr>su := (su p)\<lparr>cmnd := Some [], cmnd_base := Some []\<rparr>\<rparr>;
          p2 = (if geteuid e = 0 then
                  (case getenv_SUDO_USER e of
                     None \<Rightarrow> p1
                   | Some user \<Rightarrow>
                       if user \<noteq> [] then p1\<lparr>su := (su p1)\<lparr>pw := sudo_getpwnam e user\<rparr>\<rparr>
                       else p1)
                else p1)
      in if pw (su p2) = None then
           (case sudo_getpwuid e (getuid e) of
              None \<Rightarrow> sudo_fatalx ''you do not exist in the passwd database'' p2
            | Some r \<Rightarrow> (Inr (), p2\<lparr>su := (su p2)\<lparr>pw := Some r\<rparr>\<rparr>))
         else (Inr (), p2))"

subsection \<open>\<^verbatim>\<open>get_hostname\<close>: lines 227 to 251\<close>

text \<open>
  With a dot at position \<open>i\<close> the code writes a NUL there, duplicates the string, which
  now ends before the dot, and puts the dot back: the copy is \<open>take i h\<close> and
  \<^verbatim>\<open>user_host\<close> is \<open>h\<close> again. When the copy cannot be had the process ends with the
  NUL still in place: \<^verbatim>\<open>user_host\<close> reads \<open>take i h\<close> and \<^verbatim>\<open>user_shost\<close> is \<^verbatim>\<open>NULL\<close>.
\<close>

definition get_hostname :: "env \<Rightarrow> proc \<Rightarrow> (int + unit) \<times> proc" where
  "get_hostname e p =
     (case (case sudo_gethostname e of
              Some h \<Rightarrow>
                (case strchr h (CHR ''.'') of
                   Some i \<Rightarrow>
                     (case strdup e (take i h) of
                        None \<Rightarrow> sudo_fatalx ''get_hostname: unable to allocate memory''
                                 (p\<lparr>su := (su p)\<lparr>host := Some (take i h), shost := None\<rparr>\<rparr>)
                      | Some c \<Rightarrow> (Inr (), p\<lparr>su := (su p)\<lparr>host := Some h, shost := Some c\<rparr>\<rparr>))
                 | None \<Rightarrow> (Inr (), p\<lparr>su := (su p)\<lparr>host := Some h, shost := Some h\<rparr>\<rparr>))
            | None \<Rightarrow>
                (Inr (), p\<lparr>su := (su p)\<lparr>host := Some ''localhost'', shost := Some ''localhost''\<rparr>\<rparr>)) of
        (Inl n, p') \<Rightarrow> (Inl n, p')
      | (Inr u, p') \<Rightarrow>
          (Inr (), p'\<lparr>su := (su p')\<lparr>runhost := host (su p'), srunhost := shost (su p')\<rparr>\<rparr>))"

subsection \<open>\<^verbatim>\<open>main\<close>: lines 76 to 174\<close>

text \<open>
  The result is the exit status of the process and its last state. The debug
  subsystem's own log (\<^verbatim>\<open>debug_decl\<close>, \<^verbatim>\<open>sudo_debug_exit_int\<close>) is not part of the trace.
\<close>

definition locals_init :: locals where
  "locals_init = \<lparr>input_file = ''-'', output_file = ''-'', output_format = ''JSON''\<rparr>"

definition proc_init :: proc where
  "proc_init = \<lparr>su = sudo_user_init, out = []\<rparr>"

definition export_stage :: "env \<Rightarrow> locals \<Rightarrow> proc \<Rightarrow> int \<times> proc" where
  "export_stage e l p =
     (case (if \<not> init_defaults_ok e
            then sudo_fatalx ''unable to initialize sudoers default values'' p
            else (Inr (), p)) of
        (Inl n, p') \<Rightarrow> (n, p')
      | (Inr u, p') \<Rightarrow>
          (let ok = export_sudoers e (su p') (input_file l) (output_file l)
           in (if ok then EXIT_SUCCESS else EXIT_FAILURE,
               emit (Export_sudoers (input_file l) (output_file l) ok) p')))"

definition main :: "env \<Rightarrow> (char \<times> string) list \<Rightarrow> string list \<Rightarrow> int \<times> proc" where
  "main e opts operands =
     (case (if \<not> initlocale_ok e
            then sudo_fatalx ''main: unable to allocate memory'' proc_init
            else (Inr (), proc_init)) of
        (Inl n, p0) \<Rightarrow> (n, p0)
      | (Inr u0, p0) \<Rightarrow>
          if conf_read e = - 1 then (EXIT_FAILURE, p0)
          else if \<not> debug_register_ok e then (EXIT_FAILURE, p0)
          else
            (case arg_handling e opts operands locals_init p0 of
               (Inl n, p1) \<Rightarrow> (n, p1)
             | (Inr l, p1) \<Rightarrow>
                 (case mock_sudo_user e p1 of
                    (Inl n, p2) \<Rightarrow> (n, p2)
                  | (Inr u, p2) \<Rightarrow>
                      (case get_hostname e p2 of
                         (Inl n, p3) \<Rightarrow> (n, p3)
                       | (Inr u', p3) \<Rightarrow> export_stage e l p3))))"

subsection \<open>The stubs: lines 182 to 225\<close>

definition init_envtables :: bool where
  "init_envtables = True"

definition user_is_exempt :: bool where
  "user_is_exempt = False"

text \<open>\<^verbatim>\<open>group_plugin_query\<close> returns an \<^verbatim>\<open>int\<close>: its \<^verbatim>\<open>false\<close> is \<open>0\<close>.\<close>

definition group_plugin_query :: "string \<Rightarrow> string \<Rightarrow> passwd option \<Rightarrow> int" where
  "group_plugin_query user grp pwd = 0"

subsection \<open>What the specification speaks of\<close>

text \<open>
  The identity as the specification describes it: the acting user named by the
  environment counts only under effective user id 0 and only when the name is not
  empty; the record of that name if there is one, else the record of the real user id.
\<close>

definition acting_user :: "env \<Rightarrow> string option" where
  "acting_user e =
     (if geteuid e = 0 then
        (case getenv_SUDO_USER e of
           None \<Rightarrow> None
         | Some user \<Rightarrow> if user \<noteq> [] then Some user else None)
      else None)"

definition identity_spec :: "env \<Rightarrow> passwd option" where
  "identity_spec e =
     (case (case acting_user e of None \<Rightarrow> None | Some user \<Rightarrow> sudo_getpwnam e user) of
        Some r \<Rightarrow> Some r
      | None \<Rightarrow> sudo_getpwuid e (getuid e))"

text \<open>A format is a case-insensitive match for \<^verbatim>\<open>json\<close>.\<close>

definition json_format :: "string \<Rightarrow> bool" where
  "json_format v = (map tolower v = ''json'')"

text \<open>
  The options after which the loop goes on: \<^verbatim>\<open>-o\<close>, and \<^verbatim>\<open>-f\<close> with a format that
  matches \<^verbatim>\<open>json\<close>. Every other value (\<^verbatim>\<open>-h\<close>, \<^verbatim>\<open>-V\<close>, another format, an unknown
  option) ends the run where it stands.
\<close>

definition goes_on :: "char \<times> string \<Rightarrow> bool" where
  "goes_on opt =
     (fst opt = CHR ''o'' \<or> (fst opt = CHR ''f'' \<and> json_format (snd opt)))"

definition ends_well :: "char \<times> string \<Rightarrow> bool" where
  "ends_well opt = (fst opt = CHR ''h'' \<or> fst opt = CHR ''V'')"

text \<open>
  What the options that let the loop go on leave in the local variables, and the local
  variables with which a run whose operands are at most one comes out of the option
  handling.
\<close>

fun store_option :: "locals \<Rightarrow> char \<times> string \<Rightarrow> locals" where
  "store_option l (ch, a) =
     (if ch = CHR ''f'' then l\<lparr>output_format := a\<rparr> else l\<lparr>output_file := a\<rparr>)"

definition final_locals :: "(char \<times> string) list \<Rightarrow> string list \<Rightarrow> locals" where
  "final_locals opts operands =
     (let l = foldl store_option locals_init opts
      in case operands of [] \<Rightarrow> l | a # as \<Rightarrow> l\<lparr>input_file := a\<rparr>)"

text \<open>The input path that the operands name: the first operand, \<^verbatim>\<open>-\<close> without one.\<close>

definition operand_path :: "string list \<Rightarrow> string" where
  "operand_path operands = (case operands of [] \<Rightarrow> ''-'' | a # as \<Rightarrow> a)"

text \<open>
  An option at which the loop calls \<^verbatim>\<open>usage(1)\<close>: \<^verbatim>\<open>-f\<close> with a value (a C string,
  so without a NUL byte) that does not match \<^verbatim>\<open>json\<close>, or a value of \<^verbatim>\<open>getopt_long\<close>
  that is none of \<open>f\<close>, \<open>h\<close>, \<open>o\<close>, \<open>V\<close>.
\<close>

definition usage_option :: "char \<times> string \<Rightarrow> bool" where
  "usage_option opt =
     (if fst opt = CHR ''f'' then \<not> json_format (snd opt) \<and> CHR 0x00 \<notin> set (snd opt)
      else fst opt \<noteq> CHR ''h'' \<and> fst opt \<noteq> CHR ''o'' \<and> fst opt \<noteq> CHR ''V'')"

text \<open>
  The host information as the specification describes it: the full host is the name
  looked up, the short host its part before the first dot, and both are \<^verbatim>\<open>localhost\<close>
  when the lookup fails. The one allocation of the set-up in this file is the copy of
  the short host, made only when the name has a dot. The execution context is the
  identity with the host information.
\<close>

definition full_host :: "env \<Rightarrow> string" where
  "full_host e = (case sudo_gethostname e of None \<Rightarrow> ''localhost'' | Some h \<Rightarrow> h)"

definition short_host :: "env \<Rightarrow> string" where
  "short_host e =
     (case sudo_gethostname e of
        None \<Rightarrow> ''localhost''
      | Some h \<Rightarrow> takeWhile (\<lambda>c. c \<noteq> CHR ''.'') h)"

definition hostname_alloc_fails :: "env \<Rightarrow> bool" where
  "hostname_alloc_fails e =
     (case sudo_gethostname e of
        None \<Rightarrow> False
      | Some h \<Rightarrow> CHR ''.'' \<in> set h \<and> \<not> malloc_ok e (length (short_host e) + 1))"

definition mock_context :: "env \<Rightarrow> passwd \<Rightarrow> sudo_user" where
  "mock_context e r =
     \<lparr>pw = Some r, host = Some (full_host e), shost = Some (short_host e),
      runhost = Some (full_host e), srunhost = Some (short_host e),
      cmnd = Some [], cmnd_base = Some []\<rparr>"

text \<open>The start-up steps before the option loop (lines 91 to 109) all succeed.\<close>

definition startup_ok :: "env \<Rightarrow> bool" where
  "startup_ok e = (initlocale_ok e \<and> conf_read e \<noteq> - 1 \<and> debug_register_ok e)"

text \<open>What the three ways of ending on the option loop leave on the trace.\<close>

definition help_trace :: "env \<Rightarrow> event list" where
  "help_trace e =
     [Print Stdout (help_title (progname e)), Print Stdout (usage_text (progname e)),
      Print Stdout help_options]"

definition version_trace :: "env \<Rightarrow> event list" where
  "version_trace e = [Print Stdout (version_line e), Print Stdout (grammar_line e)]"

definition usage_event :: "env \<Rightarrow> event" where
  "usage_event e = Print Stderr (usage_text (progname e))"

text \<open>Reading a finished run off its trace.\<close>

fun is_export :: "event \<Rightarrow> bool" where
  "is_export (Export_sudoers i ou b) = True"
| "is_export ev = False"

fun is_fatalx :: "event \<Rightarrow> bool" where
  "is_fatalx (Fatalx m) = True"
| "is_fatalx ev = False"

fun reports :: "bool \<Rightarrow> event \<Rightarrow> bool" where
  "reports b (Export_sudoers i ou r) = (r = b)"
| "reports b ev = False"

definition exporter_invoked :: "proc \<Rightarrow> bool" where
  "exporter_invoked p = list_ex is_export (out p)"

definition exporter_reports :: "bool \<Rightarrow> proc \<Rightarrow> bool" where
  "exporter_reports b p = list_ex (reports b) (out p)"

definition usage_error :: "env \<Rightarrow> proc \<Rightarrow> bool" where
  "usage_error e p = (usage_event e \<in> set (out p))"

definition fatal_error :: "proc \<Rightarrow> bool" where
  "fatal_error p = list_ex is_fatalx (out p)"

definition help_shown :: "proc \<Rightarrow> bool" where
  "help_shown p = (Print Stdout help_options \<in> set (out p))"

definition version_shown :: "env \<Rightarrow> proc \<Rightarrow> bool" where
  "version_shown e p =
     (Print Stdout (version_line e) \<in> set (out p) \<and> Print Stdout (grammar_line e) \<in> set (out p))"

text \<open>
  A run succeeds when it showed the help, showed the version, or called the exporter and
  the exporter returned true.
\<close>

definition run_succeeds :: "env \<Rightarrow> proc \<Rightarrow> bool" where
  "run_succeeds e p = (help_shown p \<or> version_shown e p \<or> exporter_reports True p)"

subsection \<open>Concrete surroundings\<close>

definition alice :: passwd where
  "alice =
     \<lparr>pw_name = ''alice'', pw_uid = 1000, pw_gid = 1000, pw_gecos = ''Alice'',
      pw_dir = ''/home/alice'', pw_shell = ''/bin/sh''\<rparr>"

definition bob :: passwd where
  "bob =
     \<lparr>pw_name = ''bob'', pw_uid = 1001, pw_gid = 1001, pw_gecos = ''Bob'',
      pw_dir = ''/home/bob'', pw_shell = ''/bin/sh''\<rparr>"

text \<open>
  An unprivileged run by \<open>alice\<close> on the host \<^verbatim>\<open>foo.example.com\<close> where every call
  succeeds and the exporter accepts any input but \<^verbatim>\<open>bad\<close>.
\<close>

definition env0 :: env where
  "env0 =
     \<lparr>progname = ''cvtsudoers'', package_version = ''1.8.23'', grammar_version = 46,
      initlocale_ok = True, conf_read = 0, debug_register_ok = True,
      geteuid = 1000, getuid = 1000, getenv_SUDO_USER = None,
      sudo_getpwnam =
        (\<lambda>n. if n = ''alice'' then Some alice else if n = ''bob'' then Some bob else None),
      sudo_getpwuid =
        (\<lambda>u. if u = 1000 then Some alice else if u = 1001 then Some bob else None),
      sudo_gethostname = Some ''foo.example.com'',
      malloc_ok = (\<lambda>n. True), init_defaults_ok = True,
      export_sudoers = (\<lambda>s inp outp. inp \<noteq> ''bad'')\<rparr>"

section \<open>Properties\<close>

subsection \<open>Strings\<close>

lemma strchr_None: "(strchr h c = None) = (c \<notin> set h)"
  by (induction h) (auto split: option.splits)

lemma strchr_Some:
  "strchr h c = Some i \<Longrightarrow> take i h = takeWhile (\<lambda>x. x \<noteq> c) h \<and> c \<in> set h"
  by (induction h arbitrary: i) (auto split: option.splits if_splits)

lemma takeWhile_absent: "c \<notin> set h \<Longrightarrow> takeWhile (\<lambda>x. x \<noteq> c) h = h"
  by (induction h) auto

subsection \<open>The stubs\<close>

text \<open>
  Claim C10: the stub capability functions return fixed constants for every input:
  \<^verbatim>\<open>user_is_exempt\<close> is always false, \<^verbatim>\<open>group_plugin_query\<close> is always false (the
  \<^verbatim>\<open>int\<close> 0) whatever user, group and passwd record it is asked about, and
  \<^verbatim>\<open>init_envtables\<close> is always true.
\<close>

theorem stubs_constant:
  "user_is_exempt = False \<and> group_plugin_query user grp pwd = 0 \<and> init_envtables = True"
  by (simp add: user_is_exempt_def group_plugin_query_def init_envtables_def)

subsection \<open>Host names\<close>

text \<open>
  Claim C9: when the host name lookup succeeds and the name has no dot, the short host
  is the full host, the two run-host fields equal them, and nothing is copied: the
  allocator has no part in the result.
\<close>

theorem hostname_without_dot:
  assumes "sudo_gethostname e = Some h" and "CHR ''.'' \<notin> set h"
  shows "get_hostname e p =
           (Inr (), p\<lparr>su := (su p)\<lparr>host := Some h, shost := Some h,
                                   runhost := Some h, srunhost := Some h\<rparr>\<rparr>)
         \<and> get_hostname (e\<lparr>malloc_ok := m\<rparr>) p = get_hostname e p"
proof -
  from assms(2) have "strchr h (CHR ''.'') = None"
    by (simp add: strchr_None)
  with assms(1) show ?thesis
    by (simp add: get_hostname_def)
qed

theorem hostname_without_dot_witness:
  "sudo_gethostname (env0\<lparr>sudo_gethostname := Some ''foo''\<rparr>) = Some ''foo''
   \<and> CHR ''.'' \<notin> set ''foo''
   \<and> get_hostname (env0\<lparr>sudo_gethostname := Some ''foo''\<rparr>) proc_init =
       (Inr (), proc_init\<lparr>su := (su proc_init)\<lparr>host := Some ''foo'', shost := Some ''foo'',
                                   runhost := Some ''foo'', srunhost := Some ''foo''\<rparr>\<rparr>)
   \<and> get_hostname (env0\<lparr>sudo_gethostname := Some ''foo'', malloc_ok := (\<lambda>n. False)\<rparr>) proc_init =
       get_hostname (env0\<lparr>sudo_gethostname := Some ''foo''\<rparr>) proc_init"
  using hostname_without_dot
    [of "env0\<lparr>sudo_gethostname := Some ''foo''\<rparr>" "''foo''" proc_init "\<lambda>n. False"]
  by simp

text \<open>
  Claim C4, as stated: whenever the host name lookup succeeds, the part before the first
  dot becomes the short host and the whole name stays the full host. It fails where the
  name has a dot and the copy of the short name cannot be allocated: the lookup gave
  \<^verbatim>\<open>foo.example.com\<close>, yet \<^verbatim>\<open>get_hostname\<close> ends the process with status 1 and the short
  host is not \<^verbatim>\<open>foo\<close>.
\<close>

theorem hostname_split_counterexample:
  "sudo_gethostname (env0\<lparr>malloc_ok := (\<lambda>n. False)\<rparr>) = Some ''foo.example.com''
   \<and> fst (get_hostname (env0\<lparr>malloc_ok := (\<lambda>n. False)\<rparr>) proc_init) = Inl 1
   \<and> shost (su (snd (get_hostname (env0\<lparr>malloc_ok := (\<lambda>n. False)\<rparr>) proc_init))) \<noteq> Some ''foo''"
  by (simp add: env0_def get_hostname_def strdup_def sudo_fatalx_def EXIT_FAILURE_def emit_def)

text \<open>
  Claim C4, amended: when the host name lookup succeeds and, if the name has a dot, the
  copy of the part before the first dot can be allocated, that part becomes the short
  host, the whole name stays the full host, and the run-host fields are set to the same
  two values. When the name has a dot and the copy cannot be allocated,
  \<^verbatim>\<open>get_hostname\<close> ends the process through \<^verbatim>\<open>sudo_fatalx\<close> with status 1.
\<close>

theorem hostname_split:
  assumes "sudo_gethostname e = Some h"
  shows "((CHR ''.'' \<in> set h \<longrightarrow> malloc_ok e (length (takeWhile (\<lambda>c. c \<noteq> CHR ''.'') h) + 1)) \<longrightarrow>
            get_hostname e p =
              (Inr (), p\<lparr>su := (su p)\<lparr>host := Some h,
                                      shost := Some (takeWhile (\<lambda>c. c \<noteq> CHR ''.'') h),
                                      runhost := Some h,
                                      srunhost := Some (takeWhile (\<lambda>c. c \<noteq> CHR ''.'') h)\<rparr>\<rparr>))
         \<and> (CHR ''.'' \<in> set h \<and> \<not> malloc_ok e (length (takeWhile (\<lambda>c. c \<noteq> CHR ''.'') h) + 1) \<longrightarrow>
            get_hostname e p =
              (Inl 1, emit (Fatalx ''get_hostname: unable to allocate memory'')
                        (p\<lparr>su := (su p)\<lparr>host := Some (takeWhile (\<lambda>c. c \<noteq> CHR ''.'') h),
                                              shost := None\<rparr>\<rparr>)))"
proof (cases "strchr h (CHR ''.'')")
  case None
  then have "CHR ''.'' \<notin> set h"
    by (simp add: strchr_None)
  with None assms show ?thesis
    by (simp add: get_hostname_def takeWhile_absent)
next
  case (Some i)
  then have "take i h = takeWhile (\<lambda>c. c \<noteq> CHR ''.'') h" and "CHR ''.'' \<in> set h"
    using strchr_Some by blast+
  with Some assms show ?thesis
    by (simp add: get_hostname_def strdup_def sudo_fatalx_def EXIT_FAILURE_def)
qed

theorem hostname_split_witness:
  "sudo_gethostname env0 = Some ''foo.example.com''
   \<and> malloc_ok env0 (length (takeWhile (\<lambda>c. c \<noteq> CHR ''.'') ''foo.example.com'') + 1)
   \<and> takeWhile (\<lambda>c. c \<noteq> CHR ''.'') ''foo.example.com'' = ''foo''
   \<and> get_hostname env0 proc_init =
       (Inr (), proc_init\<lparr>su := (su proc_init)\<lparr>host := Some ''foo.example.com'',
            shost := Some ''foo'', runhost := Some ''foo.example.com'', srunhost := Some ''foo''\<rparr>\<rparr>)
   \<and> CHR ''.'' \<in> set ''foo.example.com''
   \<and> \<not> malloc_ok (env0\<lparr>malloc_ok := (\<lambda>n. False)\<rparr>)
         (length (takeWhile (\<lambda>c. c \<noteq> CHR ''.'') ''foo.example.com'') + 1)
   \<and> get_hostname (env0\<lparr>malloc_ok := (\<lambda>n. False)\<rparr>) proc_init =
       (Inl 1, emit (Fatalx ''get_hostname: unable to allocate memory'')
                 (proc_init\<lparr>su := (su proc_init)\<lparr>host := Some ''foo'', shost := None\<rparr>\<rparr>))"
  using hostname_split [of env0 "''foo.example.com''" proc_init]
    hostname_split [of "env0\<lparr>malloc_ok := (\<lambda>n. False)\<rparr>" "''foo.example.com''" proc_init]
  by (simp add: env0_def)

subsection \<open>The acting-user variable without privilege\<close>

lemma identity_spec_unprivileged:
  "geteuid e \<noteq> 0 \<Longrightarrow> identity_spec (e\<lparr>getenv_SUDO_USER := v\<rparr>) = sudo_getpwuid e (getuid e)"
  by (simp add: identity_spec_def acting_user_def)

lemma mock_sudo_user_unprivileged:
  "geteuid e \<noteq> 0 \<Longrightarrow> mock_sudo_user (e\<lparr>getenv_SUDO_USER := v\<rparr>) p = mock_sudo_user e p"
  by (simp add: mock_sudo_user_def Let_def split: option.splits)

lemma usage_env: "usage (e\<lparr>getenv_SUDO_USER := v\<rparr>) f p = usage e f p"
  by (simp add: usage_def)

lemma help_env: "help_cvt (e\<lparr>getenv_SUDO_USER := v\<rparr>) p = help_cvt e p"
  by (simp add: help_cvt_def usage_env)

lemma getopt_loop_env:
  "getopt_loop (e\<lparr>getenv_SUDO_USER := v\<rparr>) opts l p = getopt_loop e opts l p"
  by (induction e opts l p rule: getopt_loop.induct)
     (auto simp: version_line_def grammar_line_def usage_env help_env
           split: prod.splits sum.splits)

lemma arg_handling_env:
  "arg_handling (e\<lparr>getenv_SUDO_USER := v\<rparr>) opts operands l p = arg_handling e opts operands l p"
  by (simp add: arg_handling_def input_arg_def getopt_loop_env usage_env
      split: prod.splits sum.splits list.splits)

lemma get_hostname_env: "get_hostname (e\<lparr>getenv_SUDO_USER := v\<rparr>) p = get_hostname e p"
  by (simp add: get_hostname_def strdup_def split: option.splits)

lemma export_stage_env: "export_stage (e\<lparr>getenv_SUDO_USER := v\<rparr>) l p = export_stage e l p"
  by (simp add: export_stage_def sudo_fatalx_def)

lemma main_env:
  "geteuid e \<noteq> 0 \<Longrightarrow> main (e\<lparr>getenv_SUDO_USER := v\<rparr>) opts operands = main e opts operands"
  by (simp add: main_def sudo_fatalx_def mock_sudo_user_unprivileged arg_handling_env
      get_hostname_env export_stage_env split: prod.splits sum.splits)

subsection \<open>Case-insensitive comparison\<close>

lemma of_char_zero: "((of_char c :: nat) = 0) = (c = CHR 0x00)"
proof -
  have "(of_char (CHR 0x00) :: nat) = 0"
    by simp
  then have "((of_char c :: nat) = 0) = ((of_char c :: nat) = of_char (CHR 0x00))"
    by simp
  then show ?thesis
    by (simp only: of_char_eq_iff)
qed

lemma tolower_nul: "(tolower c = CHR 0x00) = (c = CHR 0x00)"
  by (simp add: tolower_def)

lemma strcasecmp_zero:
  "CHR 0x00 \<notin> set a \<Longrightarrow> CHR 0x00 \<notin> set b \<Longrightarrow>
   (strcasecmp a b = 0) = (map tolower a = map tolower b)"
proof (induction a b rule: strcasecmp.induct)
  case 1
  show ?case by simp
next
  case (2 b bs)
  then show ?case by (auto simp: of_char_zero tolower_nul)
next
  case (3 a as)
  then show ?case by (auto simp: of_char_zero tolower_nul)
next
  case (4 a as b bs)
  then show ?case by auto
qed

lemma json_format_no_nul: "json_format v \<Longrightarrow> CHR 0x00 \<notin> set v"
proof
  assume j: "json_format v" and "CHR 0x00 \<in> set v"
  then have "tolower (CHR 0x00) \<in> set (map tolower v)"
    by (simp only: set_map) (rule imageI)
  with j show False
    by (simp add: json_format_def tolower_def)
qed

lemma strcasecmp_json:
  "CHR 0x00 \<notin> set v \<Longrightarrow> (strcasecmp v ''json'' = 0) = json_format v"
  using strcasecmp_zero [of v "''json''"]
  by (simp add: json_format_def tolower_def)

lemma json_format_accepted: "json_format v \<Longrightarrow> strcasecmp v ''json'' = 0"
  by (simp add: strcasecmp_json json_format_no_nul)

subsection \<open>The option loop\<close>

lemma usage_fatal: "usage e 1 p = (Inl 1, emit (usage_event e) p)"
  by (simp add: usage_def usage_event_def)

lemma help_cvt_eq: "help_cvt e p = (Inl 0, p\<lparr>out := out p @ help_trace e\<rparr>)"
  by (simp add: help_cvt_def usage_def emit_def help_trace_def)

lemma getopt_loop_Cons:
  "getopt_loop e ((ch, a) # rest) l p =
     (if ch = CHR ''f'' then
        (if strcasecmp a ''json'' \<noteq> 0
         then (Inl 1, p\<lparr>out := out p @ [Warnx (''unsupported output format '' @ a), usage_event e]\<rparr>)
         else getopt_loop e rest (l\<lparr>output_format := a\<rparr>) p)
      else if ch = CHR ''h'' then (Inl 0, p\<lparr>out := out p @ help_trace e\<rparr>)
      else if ch = CHR ''o'' then getopt_loop e rest (l\<lparr>output_file := a\<rparr>) p
      else if ch = CHR ''V'' then (Inl 0, p\<lparr>out := out p @ version_trace e\<rparr>)
      else (Inl 1, p\<lparr>out := out p @ [usage_event e]\<rparr>))"
  by (simp add: usage_fatal help_cvt_eq emit_def version_trace_def EXIT_SUCCESS_def)

lemma getopt_loop_goes_on:
  "list_all goes_on opts \<Longrightarrow> getopt_loop e opts l p = (Inr (foldl store_option l opts), p)"
proof (induction opts arbitrary: l)
  case Nil
  show ?case by simp
next
  case (Cons x xs)
  obtain ch a where x: "x = (ch, a)"
    by (cases x)
  from Cons.prems have "goes_on (ch, a)" and rest: "list_all goes_on xs"
    by (simp_all add: x)
  then have "ch = CHR ''o'' \<or> (ch = CHR ''f'' \<and> strcasecmp a ''json'' = 0)"
    by (auto simp: goes_on_def json_format_accepted)
  then show ?case
    using Cons.IH [OF rest] by (auto simp: x getopt_loop_Cons simp del: getopt_loop.simps)
qed

lemma getopt_loop_returns:
  "getopt_loop e opts l p = (Inr l', p') \<Longrightarrow> p' = p \<and> input_file l' = input_file l"
proof (induction opts arbitrary: l)
  case Nil
  then show ?case by simp
next
  case (Cons x xs)
  obtain ch a where x: "x = (ch, a)"
    by (cases x)
  from Cons.prems Cons.IH show ?case
    by (fastforce simp: x getopt_loop_Cons simp del: getopt_loop.simps split: if_splits)
qed

lemma getopt_loop_ends:
  "getopt_loop e opts l p = (Inl n, p') \<Longrightarrow>
     su p' = su p \<and>
     ((n = 0 \<and> (out p' = out p @ help_trace e \<or> out p' = out p @ version_trace e)) \<or>
      (n = 1 \<and> (out p' = out p @ [usage_event e] \<or>
                 (\<exists>w. out p' = out p @ [Warnx w, usage_event e]))))"
proof (induction opts arbitrary: l)
  case Nil
  then show ?case by simp
next
  case (Cons x xs)
  obtain ch a where x: "x = (ch, a)"
    by (cases x)
  from Cons.prems Cons.IH show ?case
    by (fastforce simp: x getopt_loop_Cons simp del: getopt_loop.simps split: if_splits)
qed

lemma getopt_loop_no_ends_well:
  "list_all (\<lambda>opt. \<not> ends_well opt) opts \<Longrightarrow> getopt_loop e opts l p = (Inl n, p') \<Longrightarrow> n = 1"
proof (induction opts arbitrary: l)
  case Nil
  then show ?case by simp
next
  case (Cons x xs)
  obtain ch a where x: "x = (ch, a)"
    by (cases x)
  from Cons.prems Cons.IH show ?case
    by (fastforce simp: x ends_well_def getopt_loop_Cons simp del: getopt_loop.simps split: if_splits)
qed

lemma getopt_loop_bad_format:
  "list_all (\<lambda>opt. \<not> ends_well opt) pre \<Longrightarrow> strcasecmp v ''json'' \<noteq> 0 \<Longrightarrow>
   \<exists>p'. getopt_loop e (pre @ (CHR ''f'', v) # rest) l p = (Inl 1, p')"
proof (induction pre arbitrary: l)
  case Nil
  then show ?case by (simp add: getopt_loop_Cons del: getopt_loop.simps)
next
  case (Cons x xs)
  obtain ch a where x: "x = (ch, a)"
    by (cases x)
  from Cons.prems Cons.IH show ?case
    by (auto simp: x ends_well_def getopt_loop_Cons simp del: getopt_loop.simps)
qed

subsection \<open>The stages of \<^verbatim>\<open>main\<close>\<close>

lemma input_arg_none: "input_arg e [] l p = (Inr l, p)"
  by (simp add: input_arg_def)

lemma input_arg_one: "input_arg e [a] l p = (Inr (l\<lparr>input_file := a\<rparr>), p)"
  by (simp add: input_arg_def)

lemma input_arg_many:
  "2 \<le> length operands \<Longrightarrow> input_arg e operands l p = (Inl 1, p\<lparr>out := out p @ [usage_event e]\<rparr>)"
  by (cases operands) (auto simp: input_arg_def usage_fatal emit_def)

lemma operands_cases:
  "operands = [] \<or> (\<exists>a. operands = [a]) \<or> 2 \<le> length operands"
  by (cases operands rule: list.exhaust; cases "tl operands") auto

lemma arg_handling_returns:
  assumes "arg_handling e opts operands l p = (Inr l', p')"
  shows "p' = p \<and> length operands \<le> 1 \<and>
         input_file l' = (case operands of [] \<Rightarrow> input_file l | a # as \<Rightarrow> a)"
proof -
  from assms obtain l1 p1 where g: "getopt_loop e opts l p = (Inr l1, p1)"
    and i: "input_arg e operands l1 p1 = (Inr l', p')"
    by (auto simp: arg_handling_def split: prod.splits sum.splits)
  from g have p1: "p1 = p" and l1: "input_file l1 = input_file l"
    using getopt_loop_returns by blast+
  from operands_cases [of operands] i p1 l1 show ?thesis
    by (auto simp: input_arg_none input_arg_one input_arg_many)
qed

lemma arg_handling_ends:
  assumes "arg_handling e opts operands l p = (Inl n, p')"
  shows "su p' = su p \<and>
     ((n = 0 \<and> (out p' = out p @ help_trace e \<or> out p' = out p @ version_trace e)) \<or>
      (n = 1 \<and> (out p' = out p @ [usage_event e] \<or>
                 (\<exists>w. out p' = out p @ [Warnx w, usage_event e]))))"
proof (cases "getopt_loop e opts l p")
  case (Pair r p1)
  show ?thesis
  proof (cases r)
    case (Inl m)
    with Pair assms have "getopt_loop e opts l p = (Inl n, p')"
      by (simp add: arg_handling_def)
    then show ?thesis
      by (rule getopt_loop_ends)
  next
    case (Inr l1)
    with Pair have p1: "p1 = p"
      using getopt_loop_returns by blast
    from Inr Pair assms have "input_arg e operands l1 p = (Inl n, p')"
      by (simp add: arg_handling_def p1)
    with operands_cases [of operands] show ?thesis
      by (auto simp: input_arg_none input_arg_one input_arg_many)
  qed
qed

lemma arg_handling_goes_on:
  "list_all goes_on opts \<Longrightarrow> length operands \<le> 1 \<Longrightarrow>
   arg_handling e opts operands locals_init p = (Inr (final_locals opts operands), p)"
  by (cases operands)
     (simp_all add: arg_handling_def getopt_loop_goes_on final_locals_def input_arg_def)

lemma arg_handling_many:
  "list_all goes_on opts \<Longrightarrow> 2 \<le> length operands \<Longrightarrow>
   arg_handling e opts operands l p = (Inl 1, p\<lparr>out := out p @ [usage_event e]\<rparr>)"
  by (simp add: arg_handling_def getopt_loop_goes_on input_arg_many)

lemma mock_sudo_user_start:
  "mock_sudo_user e proc_init =
     (case identity_spec e of
        Some r \<Rightarrow>
          (Inr (), \<lparr>su = sudo_user_init\<lparr>pw := Some r, cmnd := Some [], cmnd_base := Some []\<rparr>,
                    out = []\<rparr>)
      | None \<Rightarrow>
          (Inl 1, \<lparr>su = sudo_user_init\<lparr>cmnd := Some [], cmnd_base := Some []\<rparr>,
                   out = [Fatalx ''you do not exist in the passwd database'']\<rparr>))"
  by (auto simp: mock_sudo_user_def identity_spec_def acting_user_def sudo_fatalx_def
      EXIT_FAILURE_def Let_def proc_init_def sudo_user_init_def emit_def split: option.splits)

lemma get_hostname_result:
  "get_hostname e p = (r, p') \<Longrightarrow>
     (r = Inr () \<and> out p' = out p) \<or>
     (r = Inl 1 \<and> out p' = out p @ [Fatalx ''get_hostname: unable to allocate memory''])"
  by (auto simp: get_hostname_def strdup_def sudo_fatalx_def EXIT_FAILURE_def emit_def
      split: option.splits if_splits)

lemma export_stage_fatal:
  "\<not> init_defaults_ok e \<Longrightarrow>
   export_stage e l p =
     (1, p\<lparr>out := out p @ [Fatalx ''unable to initialize sudoers default values'']\<rparr>)"
  by (simp add: export_stage_def sudo_fatalx_def EXIT_FAILURE_def emit_def)

lemma export_stage_runs:
  "init_defaults_ok e \<Longrightarrow>
   export_stage e l p =
     (if export_sudoers e (su p) (input_file l) (output_file l) then 0 else 1,
      p\<lparr>out := out p @ [Export_sudoers (input_file l) (output_file l)
                           (export_sudoers e (su p) (input_file l) (output_file l))]\<rparr>)"
  by (simp add: export_stage_def EXIT_FAILURE_def EXIT_SUCCESS_def emit_def Let_def)

lemma main_startup_fails:
  "\<not> startup_ok e \<Longrightarrow>
   main e opts operands = (1, proc_init) \<or>
   main e opts operands = (1, proc_init\<lparr>out := [Fatalx ''main: unable to allocate memory'']\<rparr>)"
  by (auto simp: startup_ok_def main_def sudo_fatalx_def EXIT_FAILURE_def emit_def proc_init_def)

lemma main_startup_ok:
  "startup_ok e \<Longrightarrow>
   main e opts operands =
     (case arg_handling e opts operands locals_init proc_init of
        (Inl n, p1) \<Rightarrow> (n, p1)
      | (Inr l, p1) \<Rightarrow>
          (case mock_sudo_user e p1 of
             (Inl n, p2) \<Rightarrow> (n, p2)
           | (Inr u, p2) \<Rightarrow>
               (case get_hostname e p2 of
                  (Inl n, p3) \<Rightarrow> (n, p3)
                | (Inr u', p3) \<Rightarrow> export_stage e l p3)))"
  by (simp add: startup_ok_def main_def)

lemma main_ends_in_args:
  "startup_ok e \<Longrightarrow> arg_handling e opts operands locals_init proc_init = (Inl n, p1) \<Longrightarrow>
   main e opts operands = (n, p1)"
  by (simp add: main_startup_ok)

lemma main_no_identity:
  "startup_ok e \<Longrightarrow> arg_handling e opts operands locals_init proc_init = (Inr l, p1) \<Longrightarrow>
   identity_spec e = None \<Longrightarrow>
   main e opts operands =
     (1, \<lparr>su = sudo_user_init\<lparr>cmnd := Some [], cmnd_base := Some []\<rparr>,
          out = [Fatalx ''you do not exist in the passwd database'']\<rparr>)"
  using arg_handling_returns [of e opts operands locals_init proc_init l p1]
  by (simp add: main_startup_ok mock_sudo_user_start)

lemma main_with_identity:
  "startup_ok e \<Longrightarrow> arg_handling e opts operands locals_init proc_init = (Inr l, p1) \<Longrightarrow>
   identity_spec e = Some r \<Longrightarrow>
   main e opts operands =
     (case get_hostname e
             \<lparr>su = sudo_user_init\<lparr>pw := Some r, cmnd := Some [], cmnd_base := Some []\<rparr>,
              out = []\<rparr> of
        (Inl n, p3) \<Rightarrow> (n, p3)
      | (Inr u', p3) \<Rightarrow> export_stage e l p3)"
  using arg_handling_returns [of e opts operands locals_init proc_init l p1]
  by (simp add: main_startup_ok mock_sudo_user_start)

lemma main_shapes:
  assumes "main e opts operands = (n, p)"
  shows "(n = 1 \<and> out p = []) \<or> (n = 1 \<and> (\<exists>m. out p = [Fatalx m])) \<or>
         (n = 1 \<and> out p = [usage_event e]) \<or>
         (n = 1 \<and> (\<exists>w. out p = [Warnx w, usage_event e])) \<or>
         (n = 0 \<and> out p = help_trace e) \<or> (n = 0 \<and> out p = version_trace e) \<or>
         (\<exists>ou b. out p = [Export_sudoers (operand_path operands) ou b] \<and>
                  b = export_sudoers e (su p) (operand_path operands) ou \<and>
                  n = (if b then 0 else 1) \<and> identity_spec e \<noteq> None \<and> length operands \<le> 1)"
proof (cases "startup_ok e")
  case False
  with assms main_startup_fails [of e opts operands] show ?thesis
    by (auto simp: proc_init_def)
next
  case True
  obtain ra p1 where a: "arg_handling e opts operands locals_init proc_init = (ra, p1)"
    by (cases "arg_handling e opts operands locals_init proc_init")
  show ?thesis
  proof (cases ra)
    case (Inl m)
    with a True assms have "n = m" and "p = p1"
      by (simp_all add: main_ends_in_args)
    with a Inl arg_handling_ends [of e opts operands locals_init proc_init n p] show ?thesis
      by (auto simp: proc_init_def)
  next
    case (Inr l)
    with a have al: "arg_handling e opts operands locals_init proc_init = (Inr l, p1)"
      by simp
    then have ops: "length operands \<le> 1" and inp: "input_file l = operand_path operands"
      using arg_handling_returns [of e opts operands locals_init proc_init l p1]
      by (simp_all add: operand_path_def locals_init_def split: list.splits)
    show ?thesis
    proof (cases "identity_spec e")
      case None
      with True al assms show ?thesis
        by (auto simp: main_no_identity)
    next
      case (Some r)
      let ?p2 = "\<lparr>su = sudo_user_init\<lparr>pw := Some r, cmnd := Some [], cmnd_base := Some []\<rparr>,
                  out = []\<rparr>"
      obtain rh p3 where h: "get_hostname e ?p2 = (rh, p3)"
        by (cases "get_hostname e ?p2")
      from get_hostname_result [OF h]
      consider (ok) "rh = Inr ()" "out p3 = []"
        | (fatal) "rh = Inl 1" "out p3 = [Fatalx ''get_hostname: unable to allocate memory'']"
        by auto
      then show ?thesis
      proof cases
        case fatal
        with True al Some h assms show ?thesis
          by (auto simp: main_with_identity)
      next
        case ok
        with True al Some h assms have m: "export_stage e l p3 = (n, p)"
          by (simp add: main_with_identity)
        show ?thesis
        proof (cases "init_defaults_ok e")
          case False
          with m ok show ?thesis
            by (auto simp: export_stage_fatal)
        next
          case True
          with m ok inp ops Some show ?thesis
            by (auto simp: export_stage_runs)
        qed
      qed
    qed
  qed
qed

subsection \<open>Identity resolution\<close>

lemma pw_None_update:
  "pw s = None \<Longrightarrow> s\<lparr>cmnd := a, cmnd_base := b, pw := None\<rparr> = s\<lparr>cmnd := a, cmnd_base := b\<rparr>"
  by (cases s) simp

lemma get_hostname_pw: "pw (su (snd (get_hostname e p))) = pw (su p)"
  by (simp add: get_hostname_def strdup_def sudo_fatalx_def emit_def split: option.splits)

lemma export_stage_su: "su (snd (export_stage e l p)) = su p"
  by (simp add: export_stage_def sudo_fatalx_def emit_def Let_def)

lemma main_identity:
  assumes "startup_ok e" and "list_all goes_on opts" and "length operands \<le> 1"
    and "identity_spec e = Some r"
  shows "pw (su (snd (main e opts operands))) = Some r"
proof -
  let ?p2 = "\<lparr>su = sudo_user_init\<lparr>pw := Some r, cmnd := Some [], cmnd_base := Some []\<rparr>,
              out = []\<rparr>"
  from assms(2,3) have a: "arg_handling e opts operands locals_init proc_init =
      (Inr (final_locals opts operands), proc_init)"
    by (rule arg_handling_goes_on)
  obtain x p3 where h: "get_hostname e ?p2 = (x, p3)"
    by (cases "get_hostname e ?p2")
  with get_hostname_pw [of e ?p2] have "pw (su p3) = Some r"
    by simp
  with h show ?thesis
    by (cases x) (simp_all add: main_with_identity [OF assms(1) a assms(4)] export_stage_su)
qed

text \<open>
  Claim C1: identity resolution. Under effective user id 0, with the acting-user name of
  the environment present and not empty, that name is looked up; otherwise, or when that
  lookup gives no record, the record of the real user id is looked up; when neither
  gives a record the tool ends through \<^verbatim>\<open>sudo_fatalx\<close> with status 1. The first part
  is about lines 151 to 162, entered as \<^verbatim>\<open>main\<close> enters them, with \<^verbatim>\<open>sudo_user.pw\<close>
  still \<^verbatim>\<open>NULL\<close>; the second part is about a whole run that comes through start-up and
  option handling: it ends with the record of the specification in \<^verbatim>\<open>sudo_user.pw\<close>,
  or fatally with status 1 when there is none.
\<close>

theorem identity_resolution:
  "(pw (su p) = None \<longrightarrow>
      mock_sudo_user e p =
        (case identity_spec e of
           Some r \<Rightarrow>
             (Inr (), p\<lparr>su := (su p)\<lparr>pw := Some r, cmnd := Some [], cmnd_base := Some []\<rparr>\<rparr>)
         | None \<Rightarrow>
             (Inl 1, emit (Fatalx ''you do not exist in the passwd database'')
                       (p\<lparr>su := (su p)\<lparr>cmnd := Some [], cmnd_base := Some []\<rparr>\<rparr>))))
   \<and> (startup_ok e \<and> list_all goes_on opts \<and> length operands \<le> 1 \<longrightarrow>
        (case identity_spec e of
           Some r \<Rightarrow> pw (su (snd (main e opts operands))) = Some r
         | None \<Rightarrow>
             main e opts operands =
               (1, \<lparr>su = sudo_user_init\<lparr>cmnd := Some [], cmnd_base := Some []\<rparr>,
                    out = [Fatalx ''you do not exist in the passwd database'']\<rparr>)))"
proof (intro conjI impI)
  assume "pw (su p) = None"
  then show "mock_sudo_user e p =
        (case identity_spec e of
           Some r \<Rightarrow>
             (Inr (), p\<lparr>su := (su p)\<lparr>pw := Some r, cmnd := Some [], cmnd_base := Some []\<rparr>\<rparr>)
         | None \<Rightarrow>
             (Inl 1, emit (Fatalx ''you do not exist in the passwd database'')
                       (p\<lparr>su := (su p)\<lparr>cmnd := Some [], cmnd_base := Some []\<rparr>\<rparr>)))"
    by (auto simp: mock_sudo_user_def identity_spec_def acting_user_def sudo_fatalx_def
        EXIT_FAILURE_def Let_def pw_None_update split: option.splits)
next
  assume reach: "startup_ok e \<and> list_all goes_on opts \<and> length operands \<le> 1"
  then have a: "arg_handling e opts operands locals_init proc_init =
      (Inr (final_locals opts operands), proc_init)"
    by (simp add: arg_handling_goes_on)
  show "case identity_spec e of
           Some r \<Rightarrow> pw (su (snd (main e opts operands))) = Some r
         | None \<Rightarrow>
             main e opts operands =
               (1, \<lparr>su = sudo_user_init\<lparr>cmnd := Some [], cmnd_base := Some []\<rparr>,
                    out = [Fatalx ''you do not exist in the passwd database'']\<rparr>)"
  proof (cases "identity_spec e")
    case None
    with reach a show ?thesis
      by (simp add: main_no_identity)
  next
    case (Some r)
    with reach show ?thesis
      by (simp add: main_identity)
  qed
qed

theorem identity_resolution_witness:
  "pw (su proc_init) = None
   \<and> startup_ok (env0\<lparr>geteuid := 0, getenv_SUDO_USER := Some ''bob''\<rparr>)
   \<and> list_all goes_on [(CHR ''o'', ''out.json'')] \<and> length [''in''] \<le> 1
   \<and> identity_spec (env0\<lparr>geteuid := 0, getenv_SUDO_USER := Some ''bob''\<rparr>) = Some bob
   \<and> mock_sudo_user (env0\<lparr>geteuid := 0, getenv_SUDO_USER := Some ''bob''\<rparr>) proc_init =
       (Inr (), proc_init\<lparr>su := (su proc_init)\<lparr>pw := Some bob, cmnd := Some [],
                                                cmnd_base := Some []\<rparr>\<rparr>)
   \<and> pw (su (snd (main (env0\<lparr>geteuid := 0, getenv_SUDO_USER := Some ''bob''\<rparr>)
                     [(CHR ''o'', ''out.json'')] [''in'']))) = Some bob
   \<and> identity_spec (env0\<lparr>geteuid := 0, getenv_SUDO_USER := Some ''carol''\<rparr>) = Some alice
   \<and> identity_spec (env0\<lparr>getuid := 7\<rparr>) = None
   \<and> fst (main (env0\<lparr>getuid := 7\<rparr>) [(CHR ''o'', ''out.json'')] [''in'']) = 1"
  using identity_resolution
    [of proc_init "env0\<lparr>geteuid := 0, getenv_SUDO_USER := Some ''bob''\<rparr>"
        "[(CHR ''o'', ''out.json'')]" "[''in'']"]
    identity_resolution
    [of proc_init "env0\<lparr>getuid := 7\<rparr>" "[(CHR ''o'', ''out.json'')]" "[''in'']"]
  by (simp add: proc_init_def sudo_user_init_def env0_def identity_spec_def acting_user_def
      startup_ok_def goes_on_def)

subsection \<open>Whole runs\<close>

lemmas run_defs =
  main_def arg_handling_def input_arg_def mock_sudo_user_def get_hostname_def export_stage_def
  usage_def help_cvt_def sudo_fatalx_def strdup_def emit_def tolower_def
  proc_init_def locals_init_def sudo_user_init_def EXIT_SUCCESS_def EXIT_FAILURE_def
  version_line_def grammar_line_def

lemmas trace_defs =
  exporter_invoked_def exporter_reports_def usage_error_def fatal_error_def help_shown_def
  version_shown_def run_succeeds_def usage_event_def help_trace_def version_trace_def

lemmas spec_defs =
  startup_ok_def goes_on_def ends_well_def usage_option_def json_format_def identity_spec_def
  acting_user_def final_locals_def mock_context_def full_host_def short_host_def
  hostname_alloc_fails_def

lemma input_file_foldl: "input_file (foldl store_option l opts) = input_file l"
  by (induction opts arbitrary: l) auto

lemma no_ends_well_exit:
  assumes "startup_ok e" and "list_all (\<lambda>opt. \<not> ends_well opt) opts"
    and "2 \<le> length operands"
  shows "fst (main e opts operands) = 1 \<and> usage_error e (snd (main e opts operands))"
proof -
  obtain n p where a: "arg_handling e opts operands locals_init proc_init = (Inl n, p)"
  proof (cases "arg_handling e opts operands locals_init proc_init")
    case (Pair r p)
    with assms(3) arg_handling_returns [of e opts operands locals_init proc_init _ p]
    obtain n where "r = Inl n"
      by (cases r) auto
    with Pair that show ?thesis
      by simp
  qed
  have "n = 1"
  proof (cases "getopt_loop e opts locals_init proc_init")
    case (Pair r p1)
    show ?thesis
    proof (cases r)
      case (Inl m)
      with Pair a have "m = n"
        by (simp add: arg_handling_def)
      with Inl Pair assms(2) show ?thesis
        using getopt_loop_no_ends_well by blast
    next
      case (Inr l1)
      with Pair a assms(3) show ?thesis
        by (simp add: arg_handling_def input_arg_many)
    qed
  qed
  with arg_handling_ends [OF a]
  have "out p = [usage_event e] \<or> (\<exists>w. out p = [Warnx w, usage_event e])"
    by (simp add: proc_init_def)
  moreover from assms(1) a have "main e opts operands = (n, p)"
    by (rule main_ends_in_args)
  ultimately show ?thesis
    using \<open>n = 1\<close> by (auto simp: usage_error_def)
qed

lemma export_event:
  assumes "Export_sudoers i ou b \<in> set (out (snd (main e opts operands)))"
  shows "i = operand_path operands \<and> length operands \<le> 1 \<and> identity_spec e \<noteq> None"
proof -
  obtain n p where m: "main e opts operands = (n, p)"
    by (cases "main e opts operands")
  from main_shapes [OF m] assms show ?thesis
    unfolding m snd_conv
    by (elim disjE conjE exE) (simp_all add: trace_defs)
qed

lemma list_ex_is_export:
  "list_ex is_export evs = (\<exists>i ou b. Export_sudoers i ou b \<in> set evs)"
proof (induction evs)
  case Nil
  show ?case by simp
next
  case (Cons ev evs)
  then show ?case
    by (cases ev) auto
qed

lemma exporter_invoked_iff:
  "exporter_invoked p = (\<exists>i ou b. Export_sudoers i ou b \<in> set (out p))"
  by (simp add: exporter_invoked_def list_ex_is_export)

lemma get_hostname_ok:
  "\<not> hostname_alloc_fails e \<Longrightarrow>
   get_hostname e p =
     (Inr (), p\<lparr>su := (su p)\<lparr>host := Some (full_host e), shost := Some (short_host e),
                             runhost := Some (full_host e), srunhost := Some (short_host e)\<rparr>\<rparr>)"
proof (cases "sudo_gethostname e")
  case None
  then show ?thesis
    by (simp add: get_hostname_def full_host_def short_host_def)
next
  case (Some h)
  note lookup = this
  assume ok: "\<not> hostname_alloc_fails e"
  show ?thesis
  proof (cases "strchr h (CHR ''.'')")
    case None
    then have "CHR ''.'' \<notin> set h"
      by (simp add: strchr_None)
    with None lookup show ?thesis
      by (simp add: get_hostname_def full_host_def short_host_def takeWhile_absent)
  next
    case (Some i)
    with strchr_Some [OF Some] lookup ok show ?thesis
      by (simp add: get_hostname_def strdup_def full_host_def short_host_def
          hostname_alloc_fails_def)
  qed
qed

lemma get_hostname_fails:
  "hostname_alloc_fails e \<Longrightarrow>
   get_hostname e p =
     (Inl 1, p\<lparr>su := (su p)\<lparr>host := Some (short_host e), shost := None\<rparr>,
               out := out p @ [Fatalx ''get_hostname: unable to allocate memory'']\<rparr>)"
proof (cases "sudo_gethostname e")
  case None
  assume "hostname_alloc_fails e"
  with None show ?thesis
    by (simp add: hostname_alloc_fails_def)
next
  case (Some h)
  note lookup = this
  assume bad: "hostname_alloc_fails e"
  with lookup have "strchr h (CHR ''.'') \<noteq> None"
    by (simp add: hostname_alloc_fails_def strchr_None)
  then obtain i where i: "strchr h (CHR ''.'') = Some i"
    by auto
  with strchr_Some [OF i] lookup bad show ?thesis
    by (simp add: get_hostname_def strdup_def short_host_def hostname_alloc_fails_def
        sudo_fatalx_def EXIT_FAILURE_def emit_def)
qed

lemma main_pipeline:
  assumes "startup_ok e" and "list_all goes_on opts" and "length operands \<le> 1"
    and "identity_spec e = Some r"
  shows "main e opts operands =
           (if hostname_alloc_fails e then
              (1, \<lparr>su = sudo_user_init\<lparr>pw := Some r, host := Some (short_host e),
                                       cmnd := Some [], cmnd_base := Some []\<rparr>,
                   out = [Fatalx ''get_hostname: unable to allocate memory'']\<rparr>)
            else export_stage e (final_locals opts operands) \<lparr>su = mock_context e r, out = []\<rparr>)"
proof -
  from assms(2,3) have a: "arg_handling e opts operands locals_init proc_init =
      (Inr (final_locals opts operands), proc_init)"
    by (rule arg_handling_goes_on)
  show ?thesis
  proof (cases "hostname_alloc_fails e")
    case True
    then show ?thesis
      by (simp add: main_with_identity [OF assms(1) a assms(4)] get_hostname_fails
          sudo_user_init_def)
  next
    case False
    then show ?thesis
      by (simp add: main_with_identity [OF assms(1) a assms(4)] get_hostname_ok
          sudo_user_init_def mock_context_def)
  qed
qed

lemma getopt_loop_append:
  "list_all goes_on pre \<Longrightarrow>
   getopt_loop e (pre @ xs) l p = getopt_loop e xs (foldl store_option l pre) p"
proof (induction pre arbitrary: l)
  case Nil
  show ?case by simp
next
  case (Cons x pre)
  obtain ch a where x: "x = (ch, a)"
    by (cases x)
  from Cons.prems have "goes_on (ch, a)" and rest: "list_all goes_on pre"
    by (simp_all add: x)
  then have "ch = CHR ''o'' \<or> (ch = CHR ''f'' \<and> strcasecmp a ''json'' = 0)"
    by (auto simp: goes_on_def json_format_accepted)
  then show ?case
    using Cons.IH [OF rest] by (auto simp: x getopt_loop_Cons simp del: getopt_loop.simps)
qed

lemma main_help:
  assumes "startup_ok e" and "list_all goes_on pre"
  shows "main e (pre @ (CHR ''h'', a) # rest) operands =
           (0, \<lparr>su = sudo_user_init, out = help_trace e\<rparr>)"
proof -
  from assms(2)
  have "getopt_loop e (pre @ (CHR ''h'', a) # rest) locals_init proc_init =
      (Inl 0, proc_init\<lparr>out := out proc_init @ help_trace e\<rparr>)"
    by (simp add: getopt_loop_append getopt_loop_Cons del: getopt_loop.simps)
  then have "arg_handling e (pre @ (CHR ''h'', a) # rest) operands locals_init proc_init =
      (Inl 0, \<lparr>su = sudo_user_init, out = help_trace e\<rparr>)"
    by (simp add: arg_handling_def proc_init_def)
  with assms(1) show ?thesis
    by (rule main_ends_in_args)
qed

lemma main_version:
  assumes "startup_ok e" and "list_all goes_on pre"
  shows "main e (pre @ (CHR ''V'', a) # rest) operands =
           (0, \<lparr>su = sudo_user_init, out = version_trace e\<rparr>)"
proof -
  from assms(2)
  have "getopt_loop e (pre @ (CHR ''V'', a) # rest) locals_init proc_init =
      (Inl 0, proc_init\<lparr>out := out proc_init @ version_trace e\<rparr>)"
    by (simp add: getopt_loop_append getopt_loop_Cons del: getopt_loop.simps)
  then have "arg_handling e (pre @ (CHR ''V'', a) # rest) operands locals_init proc_init =
      (Inl 0, \<lparr>su = sudo_user_init, out = version_trace e\<rparr>)"
    by (simp add: arg_handling_def proc_init_def)
  with assms(1) show ?thesis
    by (rule main_ends_in_args)
qed

lemma getopt_loop_usage_option:
  "list_all (\<lambda>opt. \<not> ends_well opt) pre \<Longrightarrow> usage_option x \<Longrightarrow>
   \<exists>p'. getopt_loop e (pre @ x # rest) l p = (Inl 1, p')"
proof (induction pre arbitrary: l)
  case Nil
  obtain ch a where x: "x = (ch, a)"
    by (cases x)
  from Nil.prems(2) show ?case
    by (auto simp: x usage_option_def getopt_loop_Cons strcasecmp_json
        simp del: getopt_loop.simps split: if_splits)
next
  case (Cons y ys)
  obtain ch a where y: "y = (ch, a)"
    by (cases y)
  from Cons.prems Cons.IH show ?case
    by (auto simp: y ends_well_def getopt_loop_Cons simp del: getopt_loop.simps)
qed

lemma startup_fails_status: "\<not> startup_ok e \<Longrightarrow> fst (main e opts operands) = 1"
  using main_startup_fails [of e opts operands] by auto

lemma main_usage_option:
  assumes "list_all (\<lambda>opt. \<not> ends_well opt) pre" and "usage_option x"
  shows "fst (main e (pre @ x # rest) operands) = 1
         \<and> (startup_ok e \<longrightarrow> usage_error e (snd (main e (pre @ x # rest) operands)))"
proof (cases "startup_ok e")
  case False
  then show ?thesis
    by (simp add: startup_fails_status)
next
  case True
  from assms obtain p' where
    g: "getopt_loop e (pre @ x # rest) locals_init proc_init = (Inl 1, p')"
    using getopt_loop_usage_option by blast
  then have "arg_handling e (pre @ x # rest) operands locals_init proc_init = (Inl 1, p')"
    by (simp add: arg_handling_def)
  with True have m: "main e (pre @ x # rest) operands = (1, p')"
    by (rule main_ends_in_args)
  from getopt_loop_ends [OF g]
  have "out p' = [usage_event e] \<or> (\<exists>w. out p' = [Warnx w, usage_event e])"
    by (simp add: proc_init_def)
  with m show ?thesis
    by (auto simp: usage_error_def)
qed

lemma main_many_operands:
  assumes "list_all (\<lambda>opt. \<not> ends_well opt) opts" and "2 \<le> length operands"
  shows "fst (main e opts operands) = 1
         \<and> (startup_ok e \<longrightarrow> usage_error e (snd (main e opts operands)))"
proof (cases "startup_ok e")
  case False
  then show ?thesis
    by (simp add: startup_fails_status)
next
  case True
  with assms show ?thesis
    by (simp add: no_ends_well_exit)
qed

lemma mock_sudo_user_real_uid:
  "geteuid e \<noteq> 0 \<Longrightarrow> pw (su p) = None \<Longrightarrow>
   pw (su (snd (mock_sudo_user e p))) = sudo_getpwuid e (getuid e)"
  by (simp add: mock_sudo_user_def Let_def sudo_fatalx_def emit_def split: option.splits)

lemma main_real_uid:
  assumes "geteuid e \<noteq> 0" and "startup_ok e" and "list_all goes_on opts"
    and "length operands \<le> 1"
  shows "pw (su (snd (main e opts operands))) = sudo_getpwuid e (getuid e)"
proof (cases "sudo_getpwuid e (getuid e)")
  case None
  with assms(1) have "identity_spec e = None"
    by (simp add: identity_spec_def acting_user_def)
  moreover from assms(3,4) have "arg_handling e opts operands locals_init proc_init =
      (Inr (final_locals opts operands), proc_init)"
    by (rule arg_handling_goes_on)
  ultimately show ?thesis
    using assms(2) None by (simp add: main_no_identity sudo_user_init_def)
next
  case (Some r)
  with assms(1) have "identity_spec e = Some r"
    by (simp add: identity_spec_def acting_user_def)
  with assms(2-4) Some show ?thesis
    by (simp add: main_identity)
qed

subsection \<open>The acting-user variable in a run\<close>

text \<open>
  Claim C7: without elevated effective privilege (effective user id not 0) the
  acting-user variable has no effect. Two runs that differ only in its value, \<open>v\<close> or
  \<open>w\<close>, are the same run and resolve the same identity, and that identity is the record
  of the real user id: it is what lines 151 to 162 leave in \<^verbatim>\<open>sudo_user.pw\<close> when they
  are entered with \<^verbatim>\<open>NULL\<close> there, and what a run that comes through start-up and option
  handling ends with (\<^verbatim>\<open>NULL\<close> when the real user id has no record and the run ends
  fatally).
\<close>

theorem sudo_user_ignored_unprivileged:
  assumes "geteuid e \<noteq> 0"
  shows "main (e\<lparr>getenv_SUDO_USER := v\<rparr>) opts operands =
           main (e\<lparr>getenv_SUDO_USER := w\<rparr>) opts operands
         \<and> mock_sudo_user (e\<lparr>getenv_SUDO_USER := v\<rparr>) p =
             mock_sudo_user (e\<lparr>getenv_SUDO_USER := w\<rparr>) p
         \<and> identity_spec (e\<lparr>getenv_SUDO_USER := v\<rparr>) = sudo_getpwuid e (getuid e)
         \<and> identity_spec (e\<lparr>getenv_SUDO_USER := w\<rparr>) = sudo_getpwuid e (getuid e)
         \<and> (pw (su p) = None \<longrightarrow>
              pw (su (snd (mock_sudo_user (e\<lparr>getenv_SUDO_USER := v\<rparr>) p))) =
                sudo_getpwuid e (getuid e)
              \<and> pw (su (snd (mock_sudo_user (e\<lparr>getenv_SUDO_USER := w\<rparr>) p))) =
                  sudo_getpwuid e (getuid e))
         \<and> (startup_ok e \<and> list_all goes_on opts \<and> length operands \<le> 1 \<longrightarrow>
              pw (su (snd (main (e\<lparr>getenv_SUDO_USER := v\<rparr>) opts operands))) =
                sudo_getpwuid e (getuid e)
              \<and> pw (su (snd (main (e\<lparr>getenv_SUDO_USER := w\<rparr>) opts operands))) =
                  sudo_getpwuid e (getuid e))"
proof -
  have run: "main (e\<lparr>getenv_SUDO_USER := x\<rparr>) opts operands = main e opts operands" for x
    using assms by (rule main_env)
  have block: "mock_sudo_user (e\<lparr>getenv_SUDO_USER := x\<rparr>) p = mock_sudo_user e p" for x
    using assms by (rule mock_sudo_user_unprivileged)
  have block_pw: "pw (su p) = None \<longrightarrow>
      pw (su (snd (mock_sudo_user e p))) = sudo_getpwuid e (getuid e)"
    using assms by (simp add: mock_sudo_user_real_uid)
  have run_pw: "startup_ok e \<and> list_all goes_on opts \<and> length operands \<le> 1 \<longrightarrow>
      pw (su (snd (main e opts operands))) = sudo_getpwuid e (getuid e)"
    using assms by (simp add: main_real_uid)
  from block_pw run_pw show ?thesis
    using assms by (simp add: run block identity_spec_unprivileged)
qed

theorem sudo_user_ignored_unprivileged_witness:
  "geteuid env0 \<noteq> 0
   \<and> main (env0\<lparr>getenv_SUDO_USER := Some ''bob''\<rparr>) [] [''in''] =
       main (env0\<lparr>getenv_SUDO_USER := None\<rparr>) [] [''in'']
   \<and> mock_sudo_user (env0\<lparr>getenv_SUDO_USER := Some ''bob''\<rparr>) proc_init =
       mock_sudo_user (env0\<lparr>getenv_SUDO_USER := None\<rparr>) proc_init
   \<and> identity_spec (env0\<lparr>getenv_SUDO_USER := Some ''bob''\<rparr>) = Some alice
   \<and> identity_spec (env0\<lparr>getenv_SUDO_USER := None\<rparr>) = Some alice
   \<and> pw (su proc_init) = None
   \<and> pw (su (snd (mock_sudo_user (env0\<lparr>getenv_SUDO_USER := Some ''bob''\<rparr>) proc_init))) =
       Some alice
   \<and> startup_ok env0 \<and> list_all goes_on [] \<and> length [''in''] \<le> 1
   \<and> pw (su (snd (main (env0\<lparr>getenv_SUDO_USER := Some ''bob''\<rparr>) [] [''in'']))) = Some alice
   \<and> pw (su (snd (main (env0\<lparr>getenv_SUDO_USER := None\<rparr>) [] [''in'']))) = Some alice"
  using sudo_user_ignored_unprivileged
    [of env0 "Some ''bob''" "[]" "[''in'']" None proc_init]
  by (simp add: env0_def proc_init_def sudo_user_init_def startup_ok_def)

subsection \<open>Exit status\<close>

text \<open>
  Claim C5: the exit status is 0 or 1, and it is 0 exactly when the run succeeds (the
  help or the version was shown, or the exporter returned true). Read off the trace: it
  is 1 after a usage error, after \<^verbatim>\<open>sudo_fatalx\<close>, and when the exporter reported failure,
  and it mirrors what the exporter returned on the mocked-up \<^verbatim>\<open>sudo_user\<close> and the two
  paths. Read off the input: it is 1 when a start-up step fails (the locale cannot be
  allocated, \<^verbatim>\<open>sudo.conf\<close> cannot be read, the debug files cannot be registered), 1 on
  two or more operands and on an option that calls \<^verbatim>\<open>usage(1)\<close> when no \<^verbatim>\<open>-h\<close> or
  \<^verbatim>\<open>-V\<close> comes first, and 0 on \<^verbatim>\<open>-h\<close> and \<^verbatim>\<open>-V\<close> when start-up succeeded and the options
  before them let the loop go on. A run that comes through start-up
  and option handling ends with status 1 when no identity is resolved, when the short
  host cannot be allocated, and when the defaults cannot be initialised; otherwise it
  calls the exporter once, on the execution context and the two paths, and its status
  is 0 when the exporter returns true and 1 when it returns false.
\<close>

theorem exit_status:
  "(fst (main e opts operands) = 0 \<or> fst (main e opts operands) = 1)
   \<and> (fst (main e opts operands) = 0) = run_succeeds e (snd (main e opts operands))
   \<and> (usage_error e (snd (main e opts operands)) \<longrightarrow> fst (main e opts operands) = 1)
   \<and> (fatal_error (snd (main e opts operands)) \<longrightarrow> fst (main e opts operands) = 1)
   \<and> (exporter_reports False (snd (main e opts operands)) \<longrightarrow> fst (main e opts operands) = 1)
   \<and> (\<forall>i ou b. Export_sudoers i ou b \<in> set (out (snd (main e opts operands))) \<longrightarrow>
         b = export_sudoers e (su (snd (main e opts operands))) i ou
         \<and> fst (main e opts operands) = (if b then 0 else 1))
   \<and> (\<not> startup_ok e \<longrightarrow> fst (main e opts operands) = 1)
   \<and> (\<not> initlocale_ok e \<longrightarrow>
        main e opts operands =
          (1, \<lparr>su = sudo_user_init, out = [Fatalx ''main: unable to allocate memory'']\<rparr>))
   \<and> (list_all (\<lambda>opt. \<not> ends_well opt) opts \<and> 2 \<le> length operands \<longrightarrow>
        fst (main e opts operands) = 1
        \<and> (startup_ok e \<longrightarrow> usage_error e (snd (main e opts operands))))
   \<and> (opts = pre @ x # rest \<and> list_all (\<lambda>opt. \<not> ends_well opt) pre \<and> usage_option x \<longrightarrow>
        fst (main e opts operands) = 1
        \<and> (startup_ok e \<longrightarrow> usage_error e (snd (main e opts operands))))
   \<and> (startup_ok e \<and> list_all goes_on pre \<and> opts = pre @ (CHR ''h'', a) # rest \<longrightarrow>
        main e opts operands = (0, \<lparr>su = sudo_user_init, out = help_trace e\<rparr>))
   \<and> (startup_ok e \<and> list_all goes_on pre \<and> opts = pre @ (CHR ''V'', a) # rest \<longrightarrow>
        main e opts operands = (0, \<lparr>su = sudo_user_init, out = version_trace e\<rparr>))
   \<and> (startup_ok e \<and> list_all goes_on opts \<and> length operands \<le> 1 \<longrightarrow>
        main e opts operands =
          (case identity_spec e of
             None \<Rightarrow>
               (1, \<lparr>su = sudo_user_init\<lparr>cmnd := Some [], cmnd_base := Some []\<rparr>,
                    out = [Fatalx ''you do not exist in the passwd database'']\<rparr>)
           | Some r \<Rightarrow>
               if hostname_alloc_fails e then
                 (1, \<lparr>su = sudo_user_init\<lparr>pw := Some r, host := Some (short_host e),
                                          cmnd := Some [], cmnd_base := Some []\<rparr>,
                      out = [Fatalx ''get_hostname: unable to allocate memory'']\<rparr>)
               else if \<not> init_defaults_ok e then
                 (1, \<lparr>su = mock_context e r,
                      out = [Fatalx ''unable to initialize sudoers default values'']\<rparr>)
               else
                 (if export_sudoers e (mock_context e r)
                       (input_file (final_locals opts operands))
                       (output_file (final_locals opts operands))
                  then 0 else 1,
                  \<lparr>su = mock_context e r,
                   out = [Export_sudoers (input_file (final_locals opts operands))
                            (output_file (final_locals opts operands))
                            (export_sudoers e (mock_context e r)
                               (input_file (final_locals opts operands))
                               (output_file (final_locals opts operands)))]\<rparr>)))"
proof -
  obtain n p where m: "main e opts operands = (n, p)"
    by (cases "main e opts operands")
  from main_shapes [OF m]
  have t: "(fst (main e opts operands) = 0 \<or> fst (main e opts operands) = 1)
     \<and> (fst (main e opts operands) = 0) = run_succeeds e (snd (main e opts operands))
     \<and> (usage_error e (snd (main e opts operands)) \<longrightarrow> fst (main e opts operands) = 1)
     \<and> (fatal_error (snd (main e opts operands)) \<longrightarrow> fst (main e opts operands) = 1)
     \<and> (exporter_reports False (snd (main e opts operands)) \<longrightarrow> fst (main e opts operands) = 1)
     \<and> (\<forall>i ou b. Export_sudoers i ou b \<in> set (out (snd (main e opts operands))) \<longrightarrow>
           b = export_sudoers e (su (snd (main e opts operands))) i ou
           \<and> fst (main e opts operands) = (if b then 0 else 1))"
    unfolding m fst_conv snd_conv
    by (elim disjE conjE exE) (simp_all add: trace_defs)
  have on_startup: "\<not> startup_ok e \<longrightarrow> fst (main e opts operands) = 1"
    by (simp add: startup_fails_status)
  have on_locale: "\<not> initlocale_ok e \<longrightarrow>
      main e opts operands =
        (1, \<lparr>su = sudo_user_init, out = [Fatalx ''main: unable to allocate memory'']\<rparr>)"
    by (simp add: main_def sudo_fatalx_def EXIT_FAILURE_def emit_def proc_init_def)
  have on_operands: "list_all (\<lambda>opt. \<not> ends_well opt) opts \<and> 2 \<le> length operands \<longrightarrow>
      fst (main e opts operands) = 1
      \<and> (startup_ok e \<longrightarrow> usage_error e (snd (main e opts operands)))"
    using main_many_operands [of opts operands e] by blast
  have on_option: "opts = pre @ x # rest \<and> list_all (\<lambda>opt. \<not> ends_well opt) pre \<and> usage_option x \<longrightarrow>
      fst (main e opts operands) = 1
      \<and> (startup_ok e \<longrightarrow> usage_error e (snd (main e opts operands)))"
    using main_usage_option [of pre x e rest operands] by blast
  have on_help: "startup_ok e \<and> list_all goes_on pre \<and> opts = pre @ (CHR ''h'', a) # rest \<longrightarrow>
      main e opts operands = (0, \<lparr>su = sudo_user_init, out = help_trace e\<rparr>)"
    by (simp add: main_help)
  have on_version: "startup_ok e \<and> list_all goes_on pre \<and> opts = pre @ (CHR ''V'', a) # rest \<longrightarrow>
      main e opts operands = (0, \<lparr>su = sudo_user_init, out = version_trace e\<rparr>)"
    by (simp add: main_version)
  have on_pipeline: "startup_ok e \<and> list_all goes_on opts \<and> length operands \<le> 1 \<longrightarrow>
        main e opts operands =
          (case identity_spec e of
             None \<Rightarrow>
               (1, \<lparr>su = sudo_user_init\<lparr>cmnd := Some [], cmnd_base := Some []\<rparr>,
                    out = [Fatalx ''you do not exist in the passwd database'']\<rparr>)
           | Some r \<Rightarrow>
               if hostname_alloc_fails e then
                 (1, \<lparr>su = sudo_user_init\<lparr>pw := Some r, host := Some (short_host e),
                                          cmnd := Some [], cmnd_base := Some []\<rparr>,
                      out = [Fatalx ''get_hostname: unable to allocate memory'']\<rparr>)
               else if \<not> init_defaults_ok e then
                 (1, \<lparr>su = mock_context e r,
                      out = [Fatalx ''unable to initialize sudoers default values'']\<rparr>)
               else
                 (if export_sudoers e (mock_context e r)
                       (input_file (final_locals opts operands))
                       (output_file (final_locals opts operands))
                  then 0 else 1,
                  \<lparr>su = mock_context e r,
                   out = [Export_sudoers (input_file (final_locals opts operands))
                            (output_file (final_locals opts operands))
                            (export_sudoers e (mock_context e r)
                               (input_file (final_locals opts operands))
                               (output_file (final_locals opts operands)))]\<rparr>))"
  proof (intro impI, elim conjE)
    assume reach: "startup_ok e" "list_all goes_on opts" "length operands \<le> 1"
    then have a: "arg_handling e opts operands locals_init proc_init =
        (Inr (final_locals opts operands), proc_init)"
      by (simp add: arg_handling_goes_on)
    show "main e opts operands =
          (case identity_spec e of
             None \<Rightarrow>
               (1, \<lparr>su = sudo_user_init\<lparr>cmnd := Some [], cmnd_base := Some []\<rparr>,
                    out = [Fatalx ''you do not exist in the passwd database'']\<rparr>)
           | Some r \<Rightarrow>
               if hostname_alloc_fails e then
                 (1, \<lparr>su = sudo_user_init\<lparr>pw := Some r, host := Some (short_host e),
                                          cmnd := Some [], cmnd_base := Some []\<rparr>,
                      out = [Fatalx ''get_hostname: unable to allocate memory'']\<rparr>)
               else if \<not> init_defaults_ok e then
                 (1, \<lparr>su = mock_context e r,
                      out = [Fatalx ''unable to initialize sudoers default values'']\<rparr>)
               else
                 (if export_sudoers e (mock_context e r)
                       (input_file (final_locals opts operands))
                       (output_file (final_locals opts operands))
                  then 0 else 1,
                  \<lparr>su = mock_context e r,
                   out = [Export_sudoers (input_file (final_locals opts operands))
                            (output_file (final_locals opts operands))
                            (export_sudoers e (mock_context e r)
                               (input_file (final_locals opts operands))
                               (output_file (final_locals opts operands)))]\<rparr>))"
    proof (cases "identity_spec e")
      case None
      with reach(1) a show ?thesis
        by (simp add: main_no_identity)
    next
      case (Some r)
      with reach show ?thesis
        by (simp add: main_pipeline export_stage_fatal export_stage_runs)
    qed
  qed
  show ?thesis
    by (intro conjI;
        rule t [THEN conjunct1] t [THEN conjunct2, THEN conjunct1]
          t [THEN conjunct2, THEN conjunct2, THEN conjunct1]
          t [THEN conjunct2, THEN conjunct2, THEN conjunct2, THEN conjunct1]
          t [THEN conjunct2, THEN conjunct2, THEN conjunct2, THEN conjunct2, THEN conjunct1]
          t [THEN conjunct2, THEN conjunct2, THEN conjunct2, THEN conjunct2, THEN conjunct2]
          on_startup on_locale on_operands on_option on_help on_version on_pipeline)
qed

theorem exit_status_witness:
  "usage_error env0 (snd (main env0 [(CHR ''f'', ''xml'')] []))
   \<and> fst (main env0 [(CHR ''f'', ''xml'')] []) = 1
   \<and> fatal_error (snd (main (env0\<lparr>init_defaults_ok := False\<rparr>) [] []))
   \<and> fst (main (env0\<lparr>init_defaults_ok := False\<rparr>) [] []) = 1
   \<and> exporter_reports False (snd (main env0 [] [''bad'']))
   \<and> fst (main env0 [] [''bad'']) = 1
   \<and> Export_sudoers ''in'' ''-'' True \<in> set (out (snd (main env0 [] [''in''])))
   \<and> fst (main env0 [] [''in'']) = 0
   \<and> \<not> startup_ok (env0\<lparr>conf_read := - 1\<rparr>)
   \<and> fst (main (env0\<lparr>conf_read := - 1\<rparr>) [] []) = 1
   \<and> \<not> initlocale_ok (env0\<lparr>initlocale_ok := False\<rparr>)
   \<and> main (env0\<lparr>initlocale_ok := False\<rparr>) [] [] =
        (1, \<lparr>su = sudo_user_init, out = [Fatalx ''main: unable to allocate memory'']\<rparr>)
   \<and> list_all (\<lambda>opt. \<not> ends_well opt) [(CHR ''o'', ''out.json'')]
   \<and> 2 \<le> length [''a'', ''b'']
   \<and> startup_ok env0
   \<and> fst (main env0 [(CHR ''o'', ''out.json'')] [''a'', ''b'']) = 1
      \<and> usage_error env0 (snd (main env0 [(CHR ''o'', ''out.json'')] [''a'', ''b'']))
   \<and> usage_option (CHR ''x'', [])
   \<and> fst (main env0 [(CHR ''o'', ''out.json''), (CHR ''x'', [])] []) = 1
      \<and> usage_error env0 (snd (main env0 [(CHR ''o'', ''out.json''), (CHR ''x'', [])] []))
   \<and> list_all goes_on [(CHR ''o'', ''out.json'')]
   \<and> main env0 [(CHR ''o'', ''out.json''), (CHR ''h'', [])] [] = (0, \<lparr>su = sudo_user_init, out = help_trace env0\<rparr>)
   \<and> main env0 [(CHR ''o'', ''out.json''), (CHR ''V'', [])] [] = (0, \<lparr>su = sudo_user_init, out = version_trace env0\<rparr>)
   \<and> identity_spec (env0\<lparr>getuid := 7\<rparr>) = None
   \<and> length [''in''] \<le> 1
   \<and> main (env0\<lparr>getuid := 7\<rparr>) [(CHR ''o'', ''out.json'')] [''in''] =
        (1, \<lparr>su = sudo_user_init\<lparr>cmnd := Some [], cmnd_base := Some []\<rparr>,
             out = [Fatalx ''you do not exist in the passwd database'']\<rparr>)
   \<and> hostname_alloc_fails (env0\<lparr>malloc_ok := (\<lambda>n. False)\<rparr>)
   \<and> main (env0\<lparr>malloc_ok := (\<lambda>n. False)\<rparr>) [(CHR ''o'', ''out.json'')] [''in''] =
        (1, \<lparr>su = sudo_user_init\<lparr>pw := Some alice, host := Some ''foo'',
                                 cmnd := Some [], cmnd_base := Some []\<rparr>,
             out = [Fatalx ''get_hostname: unable to allocate memory'']\<rparr>)
   \<and> \<not> init_defaults_ok (env0\<lparr>init_defaults_ok := False\<rparr>)
   \<and> main (env0\<lparr>init_defaults_ok := False\<rparr>) [(CHR ''o'', ''out.json'')] [''in''] =
        (1, \<lparr>su = mock_context env0 alice,
             out = [Fatalx ''unable to initialize sudoers default values'']\<rparr>)
   \<and> identity_spec env0 = Some alice
   \<and> \<not> hostname_alloc_fails env0
   \<and> init_defaults_ok env0
   \<and> main env0 [(CHR ''o'', ''out.json'')] [''in''] =
        (0, \<lparr>su = mock_context env0 alice, out = [Export_sudoers ''in'' ''out.json'' True]\<rparr>)
   \<and> main env0 [(CHR ''o'', ''out.json'')] [''bad''] =
        (1, \<lparr>su = mock_context env0 alice, out = [Export_sudoers ''bad'' ''out.json'' False]\<rparr>)"
proof -
  have a0: "usage_error env0 (snd (main env0 [(CHR ''f'', ''xml'')] []))"
    by (simp add: run_defs trace_defs env0_def)
  from exit_status [where e = "env0" and opts = "[(CHR ''f'', ''xml'')]" and operands = "[]", THEN conjunct2, THEN conjunct2, THEN conjunct1] a0
  have a: "fst (main env0 [(CHR ''f'', ''xml'')] []) = 1"
    by simp
  have b0: "fatal_error (snd (main (env0\<lparr>init_defaults_ok := False\<rparr>) [] []))"
    by (simp add: run_defs trace_defs env0_def)
  from exit_status [where e = "env0\<lparr>init_defaults_ok := False\<rparr>" and opts = "[]" and operands = "[]", THEN conjunct2, THEN conjunct2, THEN conjunct2, THEN conjunct1] b0
  have b: "fst (main (env0\<lparr>init_defaults_ok := False\<rparr>) [] []) = 1"
    by simp
  have c0: "exporter_reports False (snd (main env0 [] [''bad'']))"
    by (simp add: run_defs trace_defs env0_def)
  from exit_status [where e = "env0" and opts = "[]" and operands = "[''bad'']", THEN conjunct2, THEN conjunct2, THEN conjunct2, THEN conjunct2, THEN conjunct1] c0
  have c: "fst (main env0 [] [''bad'']) = 1"
    by simp
  have d0: "Export_sudoers ''in'' ''-'' True \<in> set (out (snd (main env0 [] [''in''])))"
    by (simp add: run_defs trace_defs env0_def)
  from exit_status [where e = "env0" and opts = "[]" and operands = "[''in'']", THEN conjunct2, THEN conjunct2, THEN conjunct2, THEN conjunct2, THEN conjunct2, THEN conjunct1] d0
  have d: "fst (main env0 [] [''in'']) = 0"
    by auto
  have f0: "\<not> startup_ok (env0\<lparr>conf_read := - 1\<rparr>)"
    by (simp add: spec_defs env0_def)
  from exit_status [where e = "env0\<lparr>conf_read := - 1\<rparr>" and opts = "[]" and operands = "[]", THEN conjunct2, THEN conjunct2, THEN conjunct2, THEN conjunct2, THEN conjunct2, THEN conjunct2, THEN conjunct1] f0
  have f: "fst (main (env0\<lparr>conf_read := - 1\<rparr>) [] []) = 1"
    by simp
  have g0: "\<not> initlocale_ok (env0\<lparr>initlocale_ok := False\<rparr>)"
    by simp
  from exit_status [where e = "env0\<lparr>initlocale_ok := False\<rparr>" and opts = "[]" and operands = "[]", THEN conjunct2, THEN conjunct2, THEN conjunct2, THEN conjunct2, THEN conjunct2, THEN conjunct2, THEN conjunct2, THEN conjunct1] g0
  have g: "main (env0\<lparr>initlocale_ok := False\<rparr>) [] [] =
        (1, \<lparr>su = sudo_user_init, out = [Fatalx ''main: unable to allocate memory'']\<rparr>)"
    by simp
  have h0: "list_all (\<lambda>opt. \<not> ends_well opt) [(CHR ''o'', ''out.json'')]"
    by (simp add: spec_defs env0_def)
  have h1: "2 \<le> length [''a'', ''b'']"
    by simp
  have h2: "startup_ok env0"
    by (simp add: spec_defs env0_def)
  from exit_status [where e = "env0" and opts = "[(CHR ''o'', ''out.json'')]" and operands = "[''a'', ''b'']", THEN conjunct2, THEN conjunct2, THEN conjunct2, THEN conjunct2, THEN conjunct2, THEN conjunct2, THEN conjunct2, THEN conjunct2, THEN conjunct1] h0 h1 h2
  have h: "fst (main env0 [(CHR ''o'', ''out.json'')] [''a'', ''b'']) = 1
      \<and> usage_error env0 (snd (main env0 [(CHR ''o'', ''out.json'')] [''a'', ''b'']))"
    by simp
  have i0: "usage_option (CHR ''x'', [])"
    by (simp add: spec_defs env0_def)
  from exit_status [where e = "env0" and opts = "[(CHR ''o'', ''out.json''), (CHR ''x'', [])]" and operands = "[]" and pre = "[(CHR ''o'', ''out.json'')]" and x = "(CHR ''x'', [])" and rest = "[]", THEN conjunct2, THEN conjunct2, THEN conjunct2, THEN conjunct2, THEN conjunct2, THEN conjunct2, THEN conjunct2, THEN conjunct2, THEN conjunct2, THEN conjunct1] i0
  have i: "fst (main env0 [(CHR ''o'', ''out.json''), (CHR ''x'', [])] []) = 1
      \<and> usage_error env0 (snd (main env0 [(CHR ''o'', ''out.json''), (CHR ''x'', [])] []))"
    by (simp add: spec_defs env0_def)
  have j0: "list_all goes_on [(CHR ''o'', ''out.json'')]"
    by (simp add: spec_defs env0_def)
  from exit_status [where e = "env0" and opts = "[(CHR ''o'', ''out.json''), (CHR ''h'', [])]" and operands = "[]" and pre = "[(CHR ''o'', ''out.json'')]" and a = "[]" and rest = "[]", THEN conjunct2, THEN conjunct2, THEN conjunct2, THEN conjunct2, THEN conjunct2, THEN conjunct2, THEN conjunct2, THEN conjunct2, THEN conjunct2, THEN conjunct2, THEN conjunct1] j0
  have j: "main env0 [(CHR ''o'', ''out.json''), (CHR ''h'', [])] [] = (0, \<lparr>su = sudo_user_init, out = help_trace env0\<rparr>)"
    by (simp add: spec_defs env0_def)
  from exit_status [where e = "env0" and opts = "[(CHR ''o'', ''out.json''), (CHR ''V'', [])]" and operands = "[]" and pre = "[(CHR ''o'', ''out.json'')]" and a = "[]" and rest = "[]", THEN conjunct2, THEN conjunct2, THEN conjunct2, THEN conjunct2, THEN conjunct2, THEN conjunct2, THEN conjunct2, THEN conjunct2, THEN conjunct2, THEN conjunct2, THEN conjunct2, THEN conjunct1] 
  have k: "main env0 [(CHR ''o'', ''out.json''), (CHR ''V'', [])] [] = (0, \<lparr>su = sudo_user_init, out = version_trace env0\<rparr>)"
    by (simp add: spec_defs env0_def)
  have l0: "identity_spec (env0\<lparr>getuid := 7\<rparr>) = None"
    by (simp add: spec_defs env0_def)
  have l1: "length [''in''] \<le> 1"
    by simp
  from exit_status [where e = "env0\<lparr>getuid := 7\<rparr>" and opts = "[(CHR ''o'', ''out.json'')]" and operands = "[''in'']", THEN conjunct2, THEN conjunct2, THEN conjunct2, THEN conjunct2, THEN conjunct2, THEN conjunct2, THEN conjunct2, THEN conjunct2, THEN conjunct2, THEN conjunct2, THEN conjunct2, THEN conjunct2] l0 l1
  have l: "main (env0\<lparr>getuid := 7\<rparr>) [(CHR ''o'', ''out.json'')] [''in''] =
        (1, \<lparr>su = sudo_user_init\<lparr>cmnd := Some [], cmnd_base := Some []\<rparr>,
             out = [Fatalx ''you do not exist in the passwd database'']\<rparr>)"
    by (simp add: spec_defs env0_def)
  have n0: "hostname_alloc_fails (env0\<lparr>malloc_ok := (\<lambda>n. False)\<rparr>)"
    by (simp add: spec_defs env0_def)
  from exit_status [where e = "env0\<lparr>malloc_ok := (\<lambda>n. False)\<rparr>" and opts = "[(CHR ''o'', ''out.json'')]" and operands = "[''in'']", THEN conjunct2, THEN conjunct2, THEN conjunct2, THEN conjunct2, THEN conjunct2, THEN conjunct2, THEN conjunct2, THEN conjunct2, THEN conjunct2, THEN conjunct2, THEN conjunct2, THEN conjunct2] n0
  have n: "main (env0\<lparr>malloc_ok := (\<lambda>n. False)\<rparr>) [(CHR ''o'', ''out.json'')] [''in''] =
        (1, \<lparr>su = sudo_user_init\<lparr>pw := Some alice, host := Some ''foo'',
                                 cmnd := Some [], cmnd_base := Some []\<rparr>,
             out = [Fatalx ''get_hostname: unable to allocate memory'']\<rparr>)"
    by (simp add: spec_defs env0_def)
  have q0: "\<not> init_defaults_ok (env0\<lparr>init_defaults_ok := False\<rparr>)"
    by simp
  from exit_status [where e = "env0\<lparr>init_defaults_ok := False\<rparr>" and opts = "[(CHR ''o'', ''out.json'')]" and operands = "[''in'']", THEN conjunct2, THEN conjunct2, THEN conjunct2, THEN conjunct2, THEN conjunct2, THEN conjunct2, THEN conjunct2, THEN conjunct2, THEN conjunct2, THEN conjunct2, THEN conjunct2, THEN conjunct2] q0
  have q: "main (env0\<lparr>init_defaults_ok := False\<rparr>) [(CHR ''o'', ''out.json'')] [''in''] =
        (1, \<lparr>su = mock_context env0 alice,
             out = [Fatalx ''unable to initialize sudoers default values'']\<rparr>)"
    by (simp add: spec_defs env0_def)
  have r0: "identity_spec env0 = Some alice"
    by (simp add: spec_defs env0_def)
  have r1: "\<not> hostname_alloc_fails env0"
    by (simp add: spec_defs env0_def)
  have r2: "init_defaults_ok env0"
    by (simp add: env0_def)
  from exit_status [where e = "env0" and opts = "[(CHR ''o'', ''out.json'')]" and operands = "[''in'']", THEN conjunct2, THEN conjunct2, THEN conjunct2, THEN conjunct2, THEN conjunct2, THEN conjunct2, THEN conjunct2, THEN conjunct2, THEN conjunct2, THEN conjunct2, THEN conjunct2, THEN conjunct2] r0 r1 r2
  have r: "main env0 [(CHR ''o'', ''out.json'')] [''in''] =
        (0, \<lparr>su = mock_context env0 alice, out = [Export_sudoers ''in'' ''out.json'' True]\<rparr>)"
    by (simp add: spec_defs locals_init_def env0_def)
  from exit_status [where e = "env0" and opts = "[(CHR ''o'', ''out.json'')]" and operands = "[''bad'']", THEN conjunct2, THEN conjunct2, THEN conjunct2, THEN conjunct2, THEN conjunct2, THEN conjunct2, THEN conjunct2, THEN conjunct2, THEN conjunct2, THEN conjunct2, THEN conjunct2, THEN conjunct2] 
  have s: "main env0 [(CHR ''o'', ''out.json'')] [''bad''] =
        (1, \<lparr>su = mock_context env0 alice, out = [Export_sudoers ''bad'' ''out.json'' False]\<rparr>)"
    by (simp add: spec_defs locals_init_def env0_def)
  from a0 a b0 b c0 c d0 d f0 f g0 g h0 h1 h2 h i0 i j0 j k l0 l1 l n0 n q0 q r0 r1 r2 r s show ?thesis
    by simp
qed

subsection \<open>The output format\<close>

text \<open>
  Claim C2, as stated: every argument vector that gives \<^verbatim>\<open>-f\<close> a value other than a
  case-insensitive \<^verbatim>\<open>json\<close> ends in the usage text and a failure status. It fails when
  \<^verbatim>\<open>-V\<close> comes first: the options \<^verbatim>\<open>-V -f xml\<close> print the version and exit with
  status 0, and no usage text is written.
\<close>

theorem unsupported_format_counterexample:
  "\<not> json_format ''xml''
   \<and> fst (main env0 [(CHR ''V'', []), (CHR ''f'', ''xml'')] []) = 0
   \<and> \<not> usage_error env0 (snd (main env0 [(CHR ''V'', []), (CHR ''f'', ''xml'')] []))"
  by (simp add: run_defs trace_defs env0_def json_format_def)

text \<open>
  Claim C2, amended: when \<^verbatim>\<open>-f\<close> is given a value (a C string, so without a NUL byte)
  that is not a case-insensitive match for \<^verbatim>\<open>json\<close>, and no \<^verbatim>\<open>-h\<close> or \<^verbatim>\<open>-V\<close> comes
  before it, the run exits with status 1 and the exporter is not called; when moreover
  the start-up steps succeeded, the usage text is written to the standard error. A value
  that matches \<^verbatim>\<open>json\<close> case-insensitively is accepted: the loop stores it as the
  output format and goes on with the next option.
\<close>

theorem unsupported_format:
  assumes "opts = pre @ (CHR ''f'', v) # rest"
    and "list_all (\<lambda>opt. \<not> ends_well opt) pre"
    and "\<not> json_format v" and "CHR 0x00 \<notin> set v"
  shows "fst (main e opts operands) = 1
         \<and> \<not> exporter_invoked (snd (main e opts operands))
         \<and> (startup_ok e \<longrightarrow> usage_error e (snd (main e opts operands)))
         \<and> (json_format v' \<longrightarrow>
              getopt_loop e ((CHR ''f'', v') # rest') l p =
                getopt_loop e rest' (l\<lparr>output_format := v'\<rparr>) p)"
proof -
  have accepted: "json_format v' \<longrightarrow>
      getopt_loop e ((CHR ''f'', v') # rest') l p =
        getopt_loop e rest' (l\<lparr>output_format := v'\<rparr>) p"
    by (simp add: json_format_accepted)
  have refused: "fst (main e opts operands) = 1
      \<and> \<not> exporter_invoked (snd (main e opts operands))
      \<and> (startup_ok e \<longrightarrow> usage_error e (snd (main e opts operands)))"
  proof (cases "startup_ok e")
    case False
    with main_startup_fails [of e opts operands] show ?thesis
      by (auto simp: exporter_invoked_def proc_init_def)
  next
    case True
    from assms(3,4) have "strcasecmp v ''json'' \<noteq> 0"
      by (simp add: strcasecmp_json)
    with assms(1,2) obtain p' where
      g: "getopt_loop e opts locals_init proc_init = (Inl 1, p')"
      using getopt_loop_bad_format by blast
    then have "arg_handling e opts operands locals_init proc_init = (Inl 1, p')"
      by (simp add: arg_handling_def)
    with True have m: "main e opts operands = (1, p')"
      by (rule main_ends_in_args)
    from getopt_loop_ends [OF g]
    have "out p' = [usage_event e] \<or> (\<exists>w. out p' = [Warnx w, usage_event e])"
      by (simp add: proc_init_def)
    with m show ?thesis
      by (auto simp: exporter_invoked_def usage_error_def usage_event_def)
  qed
  from refused accepted show ?thesis
    by blast
qed

theorem unsupported_format_witness:
  "[(CHR ''o'', ''out.json''), (CHR ''f'', ''xml''), (CHR ''V'', [])] =
     [(CHR ''o'', ''out.json'')] @ (CHR ''f'', ''xml'') # [(CHR ''V'', [])]
   \<and> list_all (\<lambda>opt. \<not> ends_well opt) [(CHR ''o'', ''out.json'')]
   \<and> \<not> json_format ''xml'' \<and> CHR 0x00 \<notin> set ''xml''
   \<and> startup_ok env0 \<and> json_format ''Json''
   \<and> fst (main env0 [(CHR ''o'', ''out.json''), (CHR ''f'', ''xml''), (CHR ''V'', [])] [''in'']) = 1
   \<and> \<not> exporter_invoked
         (snd (main env0 [(CHR ''o'', ''out.json''), (CHR ''f'', ''xml''), (CHR ''V'', [])] [''in'']))
   \<and> usage_error env0
         (snd (main env0 [(CHR ''o'', ''out.json''), (CHR ''f'', ''xml''), (CHR ''V'', [])] [''in'']))
   \<and> getopt_loop env0 [(CHR ''f'', ''Json'')] locals_init proc_init =
       getopt_loop env0 [] (locals_init\<lparr>output_format := ''Json''\<rparr>) proc_init"
  using unsupported_format
    [of "[(CHR ''o'', ''out.json''), (CHR ''f'', ''xml''), (CHR ''V'', [])]"
        "[(CHR ''o'', ''out.json'')]" "''xml''" "[(CHR ''V'', [])]"
        env0 "[''in'']" "''Json''" "[]" locals_init proc_init]
  by (simp add: json_format_def tolower_def ends_well_def startup_ok_def env0_def)

subsection \<open>Operands\<close>

text \<open>
  Claim C6, as stated: every invocation with two or more operands prints the usage and
  exits with a failure status. It fails when \<^verbatim>\<open>-V\<close> is among the options: with the
  operands \<^verbatim>\<open>a\<close> and \<^verbatim>\<open>b\<close> the run prints the version and exits with status 0 before it
  looks at the operands, and no usage text is written.
\<close>

theorem operands_input_path_counterexample:
  "length [''a'', ''b''] = 2
   \<and> fst (main env0 [(CHR ''V'', [])] [''a'', ''b'']) = 0
   \<and> \<not> usage_error env0 (snd (main env0 [(CHR ''V'', [])] [''a'', ''b'']))"
  by (simp add: run_defs trace_defs env0_def)

text \<open>
  Claim C6, amended: an invocation with two or more operands whose options include no
  \<^verbatim>\<open>-h\<close> or \<^verbatim>\<open>-V\<close> exits with status 1, and, when the start-up steps succeeded, after
  writing the usage text to the standard error; with two or more operands the exporter
  is never called. With exactly one operand that operand becomes the input path, and
  with none the input path is \<^verbatim>\<open>-\<close>: this is the value of \<^verbatim>\<open>input_file\<close> after the
  option handling when every option lets the loop go on, and it is the input path of
  every call of the exporter.
\<close>

theorem operands_input_path:
  "(list_all (\<lambda>opt. \<not> ends_well opt) opts \<and> 2 \<le> length operands \<longrightarrow>
      fst (main e opts operands) = 1
      \<and> (startup_ok e \<longrightarrow> usage_error e (snd (main e opts operands))))
   \<and> (2 \<le> length operands \<longrightarrow> \<not> exporter_invoked (snd (main e opts operands)))
   \<and> (list_all goes_on opts \<longrightarrow>
        arg_handling e opts [a] locals_init proc_init =
          (Inr ((foldl store_option locals_init opts)\<lparr>input_file := a\<rparr>), proc_init))
   \<and> (Export_sudoers i ou b \<in> set (out (snd (main e opts [a]))) \<longrightarrow> i = a)
   \<and> (list_all goes_on opts \<longrightarrow>
        arg_handling e opts [] locals_init proc_init =
          (Inr (foldl store_option locals_init opts), proc_init)
        \<and> input_file (foldl store_option locals_init opts) = ''-'')
   \<and> (Export_sudoers i ou b \<in> set (out (snd (main e opts []))) \<longrightarrow> i = ''-'')"
proof (intro conjI impI)
  assume "list_all (\<lambda>opt. \<not> ends_well opt) opts \<and> 2 \<le> length operands"
  then show "fst (main e opts operands) = 1"
    using main_many_operands by blast
next
  assume "list_all (\<lambda>opt. \<not> ends_well opt) opts \<and> 2 \<le> length operands" and "startup_ok e"
  then show "usage_error e (snd (main e opts operands))"
    using main_many_operands by blast
next
  assume "2 \<le> length operands"
  then show "\<not> exporter_invoked (snd (main e opts operands))"
    using export_event [of _ _ _ e opts operands] by (fastforce simp: exporter_invoked_iff)
next
  assume "list_all goes_on opts"
  then show "arg_handling e opts [a] locals_init proc_init =
      (Inr ((foldl store_option locals_init opts)\<lparr>input_file := a\<rparr>), proc_init)"
    using arg_handling_goes_on [of opts "[a]" e proc_init] by (simp add: final_locals_def)
next
  assume "Export_sudoers i ou b \<in> set (out (snd (main e opts [a])))"
  then show "i = a"
    using export_event [of i ou b e opts "[a]"] by (simp add: operand_path_def)
next
  assume "list_all goes_on opts"
  then show "arg_handling e opts [] locals_init proc_init =
      (Inr (foldl store_option locals_init opts), proc_init)"
    using arg_handling_goes_on [of opts "[]" e proc_init] by (simp add: final_locals_def)
next
  show "input_file (foldl store_option locals_init opts) = ''-''"
    by (simp add: input_file_foldl locals_init_def)
next
  assume "Export_sudoers i ou b \<in> set (out (snd (main e opts [])))"
  then show "i = ''-''"
    using export_event [of i ou b e opts "[]"] by (simp add: operand_path_def)
qed

theorem operands_input_path_witness:
  "startup_ok env0 \<and> list_all (\<lambda>opt. \<not> ends_well opt) [(CHR ''o'', ''out.json'')]
   \<and> 2 \<le> length [''a'', ''b'']
   \<and> fst (main env0 [(CHR ''o'', ''out.json'')] [''a'', ''b'']) = 1
   \<and> usage_error env0 (snd (main env0 [(CHR ''o'', ''out.json'')] [''a'', ''b'']))
   \<and> \<not> exporter_invoked (snd (main env0 [(CHR ''o'', ''out.json'')] [''a'', ''b'']))
   \<and> \<not> startup_ok (env0\<lparr>conf_read := - 1\<rparr>)
   \<and> fst (main (env0\<lparr>conf_read := - 1\<rparr>) [(CHR ''o'', ''out.json'')] [''a'', ''b'']) = 1
   \<and> list_all goes_on [(CHR ''o'', ''out.json'')]
   \<and> Export_sudoers ''in'' ''out.json'' True \<in>
        set (out (snd (main env0 [(CHR ''o'', ''out.json'')] [''in''])))
   \<and> Export_sudoers ''-'' ''out.json'' True \<in>
        set (out (snd (main env0 [(CHR ''o'', ''out.json'')] [])))
   \<and> arg_handling env0 [(CHR ''o'', ''out.json'')] [''in''] locals_init proc_init =
        (Inr \<lparr>input_file = ''in'', output_file = ''out.json'', output_format = ''JSON''\<rparr>,
         proc_init)
   \<and> arg_handling env0 [(CHR ''o'', ''out.json'')] [] locals_init proc_init =
        (Inr \<lparr>input_file = ''-'', output_file = ''out.json'', output_format = ''JSON''\<rparr>,
         proc_init)"
proof -
  note many = operands_input_path
    [where e = env0 and opts = "[(CHR ''o'', ''out.json'')]" and operands = "[''a'', ''b'']"]
  note early = operands_input_path
    [where e = "env0\<lparr>conf_read := - 1\<rparr>" and opts = "[(CHR ''o'', ''out.json'')]"
       and operands = "[''a'', ''b'']"]
  note one = operands_input_path
    [where e = env0 and opts = "[(CHR ''o'', ''out.json'')]" and a = "''in''" and i = "''in''"
       and ou = "''out.json''" and b = True]
  note none = operands_input_path
    [where e = env0 and opts = "[(CHR ''o'', ''out.json'')]" and i = "''-''"
       and ou = "''out.json''" and b = True]
  have s: "startup_ok env0"
    by (simp add: startup_ok_def env0_def)
  have n: "list_all (\<lambda>opt. \<not> ends_well opt) [(CHR ''o'', ''out.json'')]"
    by (simp add: ends_well_def)
  have l: "2 \<le> length [''a'', ''b'']"
    by simp
  from many [THEN conjunct1] s n l
  have c1: "fst (main env0 [(CHR ''o'', ''out.json'')] [''a'', ''b'']) = 1
      \<and> usage_error env0 (snd (main env0 [(CHR ''o'', ''out.json'')] [''a'', ''b'']))"
    by simp
  from many [THEN conjunct2, THEN conjunct1] l
  have c2: "\<not> exporter_invoked (snd (main env0 [(CHR ''o'', ''out.json'')] [''a'', ''b'']))"
    by simp
  have f: "\<not> startup_ok (env0\<lparr>conf_read := - 1\<rparr>)"
    by (simp add: startup_ok_def)
  from early [THEN conjunct1] n l
  have c3: "fst (main (env0\<lparr>conf_read := - 1\<rparr>) [(CHR ''o'', ''out.json'')] [''a'', ''b'']) = 1"
    by simp
  have g: "list_all goes_on [(CHR ''o'', ''out.json'')]"
    by (simp add: goes_on_def)
  have ev1: "Export_sudoers ''in'' ''out.json'' True \<in>
      set (out (snd (main env0 [(CHR ''o'', ''out.json'')] [''in''])))"
    by (simp add: run_defs env0_def)
  have ev0: "Export_sudoers ''-'' ''out.json'' True \<in>
      set (out (snd (main env0 [(CHR ''o'', ''out.json'')] [])))"
    by (simp add: run_defs env0_def)
  from one [THEN conjunct2, THEN conjunct2, THEN conjunct2, THEN conjunct1] ev1
  have "''in'' = ''in''"
    by simp
  from none [THEN conjunct2, THEN conjunct2, THEN conjunct2, THEN conjunct2, THEN conjunct2] ev0
  have "''-'' = ''-''"
    by simp
  from one [THEN conjunct2, THEN conjunct2, THEN conjunct1] g
  have c4: "arg_handling env0 [(CHR ''o'', ''out.json'')] [''in''] locals_init proc_init =
      (Inr \<lparr>input_file = ''in'', output_file = ''out.json'', output_format = ''JSON''\<rparr>,
       proc_init)"
    by (simp add: locals_init_def)
  from none [THEN conjunct2, THEN conjunct2, THEN conjunct2, THEN conjunct2, THEN conjunct1] g
  have c5: "arg_handling env0 [(CHR ''o'', ''out.json'')] [] locals_init proc_init =
      (Inr \<lparr>input_file = ''-'', output_file = ''out.json'', output_format = ''JSON''\<rparr>,
       proc_init)"
    by (simp add: locals_init_def)
  from s n l c1 c2 f c3 g ev1 ev0 c4 c5 show ?thesis
    by simp
qed

subsection \<open>A run without an identity\<close>

text \<open>
  Claim C8, as stated: when no identity can be resolved, the process ends with a failure
  status. It fails when \<^verbatim>\<open>-V\<close> is given: without any passwd record the run still prints
  the version and exits with status 0, since the options are handled before the identity
  is looked up.
\<close>

theorem no_identity_counterexample:
  "identity_spec (env0\<lparr>sudo_getpwuid := (\<lambda>u. None)\<rparr>) = None
   \<and> fst (main (env0\<lparr>sudo_getpwuid := (\<lambda>u. None)\<rparr>) [(CHR ''V'', [])] []) = 0"
  by (simp add: run_defs env0_def identity_spec_def acting_user_def)

text \<open>
  Claim C8, amended: when no identity can be resolved (the acting-user name gives no
  record, or does not count, and the real user id has no passwd record), the exporter is
  never called, so the input file is never opened; the process ends with status 1 unless
  \<^verbatim>\<open>-h\<close> or \<^verbatim>\<open>-V\<close> ended it with status 0 in the option handling; and a run that comes
  through start-up and option handling ends through \<^verbatim>\<open>sudo_fatalx\<close> with status 1 and
  the message that the user does not exist.
\<close>

theorem no_identity_no_export:
  assumes "identity_spec e = None"
  shows "\<not> exporter_invoked (snd (main e opts operands))
         \<and> (fst (main e opts operands) = 1
            \<or> (fst (main e opts operands) = 0
                \<and> (help_shown (snd (main e opts operands))
                    \<or> version_shown e (snd (main e opts operands)))))
         \<and> (startup_ok e \<and> list_all goes_on opts \<and> length operands \<le> 1 \<longrightarrow>
              main e opts operands =
                (1, \<lparr>su = sudo_user_init\<lparr>cmnd := Some [], cmnd_base := Some []\<rparr>,
                     out = [Fatalx ''you do not exist in the passwd database'']\<rparr>))"
proof -
  have never: "\<not> exporter_invoked (snd (main e opts operands))"
    using assms export_event [of _ _ _ e opts operands]
    by (auto simp: exporter_invoked_iff)
  obtain n p where m: "main e opts operands = (n, p)"
    by (cases "main e opts operands")
  from main_shapes [OF m] assms
  have status: "n = 1 \<or> (n = 0 \<and> (help_shown p \<or> version_shown e p))"
    by (elim disjE conjE exE) (simp_all add: trace_defs)
  have reached: "startup_ok e \<and> list_all goes_on opts \<and> length operands \<le> 1 \<longrightarrow>
      main e opts operands =
        (1, \<lparr>su = sudo_user_init\<lparr>cmnd := Some [], cmnd_base := Some []\<rparr>,
             out = [Fatalx ''you do not exist in the passwd database'']\<rparr>)"
    using assms arg_handling_goes_on [of opts operands e proc_init]
    by (auto intro: main_no_identity)
  from never status reached show ?thesis
    by (simp add: m)
qed

theorem no_identity_no_export_witness:
  "identity_spec (env0\<lparr>sudo_getpwuid := (\<lambda>u. None)\<rparr>) = None
   \<and> startup_ok (env0\<lparr>sudo_getpwuid := (\<lambda>u. None)\<rparr>)
   \<and> list_all goes_on [(CHR ''o'', ''out.json'')] \<and> length [''in''] \<le> 1
   \<and> \<not> exporter_invoked
         (snd (main (env0\<lparr>sudo_getpwuid := (\<lambda>u. None)\<rparr>) [(CHR ''o'', ''out.json'')] [''in'']))
   \<and> main (env0\<lparr>sudo_getpwuid := (\<lambda>u. None)\<rparr>) [(CHR ''o'', ''out.json'')] [''in''] =
       (1, \<lparr>su = sudo_user_init\<lparr>cmnd := Some [], cmnd_base := Some []\<rparr>,
            out = [Fatalx ''you do not exist in the passwd database'']\<rparr>)"
  using no_identity_no_export
    [of "env0\<lparr>sudo_getpwuid := (\<lambda>u. None)\<rparr>" "[(CHR ''o'', ''out.json'')]" "[''in'']"]
  by (simp add: run_defs trace_defs env0_def identity_spec_def acting_user_def startup_ok_def
      goes_on_def)

subsection \<open>The host name fallback\<close>

text \<open>
  Claim C3, as stated: the host name resolver is never fatal, and after a failed lookup
  the pipeline goes on to the conversion. Both parts fail. With the host name
  \<^verbatim>\<open>foo.example.com\<close> and no memory for the copy of the short name, \<^verbatim>\<open>get_hostname\<close>
  ends the run through \<^verbatim>\<open>sudo_fatalx\<close> with status 1. And after a failed lookup a run
  whose defaults cannot be initialised ends fatally without calling the exporter.
\<close>

theorem hostname_fallback_counterexample:
  "sudo_gethostname (env0\<lparr>malloc_ok := (\<lambda>n. False)\<rparr>) = Some ''foo.example.com''
   \<and> main (env0\<lparr>malloc_ok := (\<lambda>n. False)\<rparr>) [] [] =
       (1, \<lparr>su = sudo_user_init\<lparr>pw := Some alice, host := Some ''foo'',
                                cmnd := Some [], cmnd_base := Some []\<rparr>,
            out = [Fatalx ''get_hostname: unable to allocate memory'']\<rparr>)
   \<and> sudo_gethostname (env0\<lparr>sudo_gethostname := None, init_defaults_ok := False\<rparr>) = None
   \<and> \<not> exporter_invoked
         (snd (main (env0\<lparr>sudo_gethostname := None, init_defaults_ok := False\<rparr>) [] []))
   \<and> fatal_error (snd (main (env0\<lparr>sudo_gethostname := None, init_defaults_ok := False\<rparr>) [] []))"
  by (simp add: run_defs trace_defs env0_def)

lemma get_hostname_fatal_iff:
  "(fst (get_hostname e p) = Inl 1) =
     (case sudo_gethostname e of
        None \<Rightarrow> False
      | Some h \<Rightarrow> CHR ''.'' \<in> set h
                  \<and> \<not> malloc_ok e (length (takeWhile (\<lambda>c. c \<noteq> CHR ''.'') h) + 1))"
proof (cases "sudo_gethostname e")
  case None
  then show ?thesis
    by (simp add: get_hostname_def)
next
  case (Some h)
  note lookup = this
  show ?thesis
  proof (cases "strchr h (CHR ''.'')")
    case None
    with lookup show ?thesis
      by (simp add: get_hostname_def strchr_None [symmetric])
  next
    case (Some i)
    with strchr_Some [OF Some] lookup show ?thesis
      by (simp add: get_hostname_def strdup_def sudo_fatalx_def EXIT_FAILURE_def)
  qed
qed

text \<open>
  Claim C3, amended: when the host name lookup fails, \<^verbatim>\<open>get_hostname\<close> sets the full
  host, the short host and the two run-host fields to \<^verbatim>\<open>localhost\<close>, writes nothing and
  returns. \<^verbatim>\<open>get_hostname\<close> ends the process (with status 1) exactly when the lookup
  succeeds, the name has a dot and the copy of the short name cannot be allocated. After
  a failed lookup a run that came through start-up, option handling and identity
  resolution goes on to initialise the defaults, and calls the exporter exactly when
  that succeeds.
\<close>

theorem hostname_fallback:
  "(sudo_gethostname e = None \<longrightarrow>
      get_hostname e p =
        (Inr (), p\<lparr>su := (su p)\<lparr>host := Some ''localhost'', shost := Some ''localhost'',
                                runhost := Some ''localhost'', srunhost := Some ''localhost''\<rparr>\<rparr>))
   \<and> (fst (get_hostname e p) = Inr () \<or> fst (get_hostname e p) = Inl 1)
   \<and> (fst (get_hostname e p) = Inl 1) =
       (case sudo_gethostname e of
          None \<Rightarrow> False
        | Some h \<Rightarrow> CHR ''.'' \<in> set h
                    \<and> \<not> malloc_ok e (length (takeWhile (\<lambda>c. c \<noteq> CHR ''.'') h) + 1))
   \<and> (startup_ok e \<and> list_all goes_on opts \<and> length operands \<le> 1
       \<and> identity_spec e = Some r \<and> sudo_gethostname e = None \<longrightarrow>
        main e opts operands =
          export_stage e (final_locals opts operands)
            \<lparr>su = sudo_user_init\<lparr>pw := Some r, host := Some ''localhost'',
                  shost := Some ''localhost'', runhost := Some ''localhost'',
                  srunhost := Some ''localhost'', cmnd := Some [], cmnd_base := Some []\<rparr>,
             out = []\<rparr>
        \<and> exporter_invoked (snd (main e opts operands)) = init_defaults_ok e)"
proof (intro conjI impI)
  assume "sudo_gethostname e = None"
  then show "get_hostname e p =
      (Inr (), p\<lparr>su := (su p)\<lparr>host := Some ''localhost'', shost := Some ''localhost'',
                              runhost := Some ''localhost'', srunhost := Some ''localhost''\<rparr>\<rparr>)"
    by (simp add: get_hostname_def)
next
  show "fst (get_hostname e p) = Inr () \<or> fst (get_hostname e p) = Inl 1"
    using get_hostname_result [of e p] by (cases "get_hostname e p") auto
next
  show "(fst (get_hostname e p) = Inl 1) =
       (case sudo_gethostname e of
          None \<Rightarrow> False
        | Some h \<Rightarrow> CHR ''.'' \<in> set h
                    \<and> \<not> malloc_ok e (length (takeWhile (\<lambda>c. c \<noteq> CHR ''.'') h) + 1))"
    by (rule get_hostname_fatal_iff)
next
  assume h: "startup_ok e \<and> list_all goes_on opts \<and> length operands \<le> 1
       \<and> identity_spec e = Some r \<and> sudo_gethostname e = None"
  then have a: "arg_handling e opts operands locals_init proc_init =
      (Inr (final_locals opts operands), proc_init)"
    by (simp add: arg_handling_goes_on)
  from h show m: "main e opts operands =
          export_stage e (final_locals opts operands)
            \<lparr>su = sudo_user_init\<lparr>pw := Some r, host := Some ''localhost'',
                  shost := Some ''localhost'', runhost := Some ''localhost'',
                  srunhost := Some ''localhost'', cmnd := Some [], cmnd_base := Some []\<rparr>,
             out = []\<rparr>"
    by (simp add: main_with_identity [OF _ a] get_hostname_def sudo_user_init_def)
  show "exporter_invoked (snd (main e opts operands)) = init_defaults_ok e"
    unfolding m
    by (cases "init_defaults_ok e")
       (simp_all add: export_stage_fatal export_stage_runs exporter_invoked_def)
qed

theorem hostname_fallback_witness:
  "sudo_gethostname (env0\<lparr>sudo_gethostname := None\<rparr>) = None
   \<and> startup_ok (env0\<lparr>sudo_gethostname := None\<rparr>)
   \<and> list_all goes_on [(CHR ''f'', ''json'')] \<and> length [''in''] \<le> 1
   \<and> identity_spec (env0\<lparr>sudo_gethostname := None\<rparr>) = Some alice
   \<and> get_hostname (env0\<lparr>sudo_gethostname := None\<rparr>) proc_init =
        (Inr (), proc_init\<lparr>su := (su proc_init)\<lparr>host := Some ''localhost'',
            shost := Some ''localhost'', runhost := Some ''localhost'',
            srunhost := Some ''localhost''\<rparr>\<rparr>)
   \<and> main (env0\<lparr>sudo_gethostname := None\<rparr>) [(CHR ''f'', ''json'')] [''in''] =
        (0, \<lparr>su = sudo_user_init\<lparr>pw := Some alice, host := Some ''localhost'',
                  shost := Some ''localhost'', runhost := Some ''localhost'',
                  srunhost := Some ''localhost'', cmnd := Some [], cmnd_base := Some []\<rparr>,
             out = [Export_sudoers ''in'' ''-'' True]\<rparr>)
   \<and> exporter_invoked (snd (main (env0\<lparr>sudo_gethostname := None\<rparr>) [(CHR ''f'', ''json'')] [''in'']))"
  using hostname_fallback
    [of "env0\<lparr>sudo_gethostname := None\<rparr>" proc_init "[(CHR ''f'', ''json'')]" "[''in'']" alice]
  by (simp add: run_defs trace_defs env0_def startup_ok_def goes_on_def json_format_def
      identity_spec_def acting_user_def final_locals_def)

end
